theory Spec2Isabelle
  imports Complex_Main
begin

section \<open>Python values and exceptions\<close>

text \<open>
  The exceptions that the two source files can meet.  \<open>BaseOnly\<close> stands for an
  exception that derives from \<open>BaseException\<close> but not from \<open>Exception\<close>
  (\<open>KeyboardInterrupt\<close>, \<open>SystemExit\<close>): an \<open>except Exception\<close> clause does not
  catch it.  \<open>HTTPError\<close> and \<open>ConnectionError\<close> are subclasses of
  \<open>requests.exceptions.RequestException\<close>.  \<open>RequestsJSONDecodeError\<close> is
  \<open>requests.exceptions.JSONDecodeError\<close>, which derives from both
  \<open>RequestException\<close> and \<open>json.JSONDecodeError\<close>; \<open>JSONDecodeError\<close> is
  \<open>json.JSONDecodeError\<close> alone.
\<close>

datatype exn =
    TypeError string
  | AttributeError string
  | UnicodeDecodeError string
  | OSError string
  | HTTPError string
  | ConnectionError string
  | RequestsJSONDecodeError string
  | JSONDecodeError string
  | OtherException string
  | BaseOnly string

fun is_Exception :: "exn \<Rightarrow> bool" where
  "is_Exception (BaseOnly _) = False"
| "is_Exception _ = True"

fun is_RequestException :: "exn \<Rightarrow> bool" where
  "is_RequestException (HTTPError _) = True"
| "is_RequestException (ConnectionError _) = True"
| "is_RequestException (RequestsJSONDecodeError _) = True"
| "is_RequestException _ = False"

fun is_JSONDecodeError :: "exn \<Rightarrow> bool" where
  "is_JSONDecodeError (RequestsJSONDecodeError _) = True"
| "is_JSONDecodeError (JSONDecodeError _) = True"
| "is_JSONDecodeError _ = False"

fun exn_text :: "exn \<Rightarrow> string" where
  "exn_text (TypeError m) = m"
| "exn_text (AttributeError m) = m"
| "exn_text (UnicodeDecodeError m) = m"
| "exn_text (OSError m) = m"
| "exn_text (HTTPError m) = m"
| "exn_text (ConnectionError m) = m"
| "exn_text (RequestsJSONDecodeError m) = m"
| "exn_text (JSONDecodeError m) = m"
| "exn_text (OtherException m) = m"
| "exn_text (BaseOnly m) = m"

text \<open>
  A value handed to the barcode functions: a \<open>str\<close>, \<open>None\<close>, or an object of
  any other class, which is described by what its \<open>__str__\<close> does (return a
  text or raise).
\<close>

datatype pyarg =
    PStr string
  | PNone
  | PObj "exn + string"

fun isinstance_str :: "pyarg \<Rightarrow> bool" where
  "isinstance_str (PStr _) = True"
| "isinstance_str _ = False"

fun py_str :: "pyarg \<Rightarrow> exn + string" where
  "py_str (PStr s) = Inr s"
| "py_str PNone = Inr ''None''"
| "py_str (PObj r) = r"

section \<open>backend\_functions.py: the barcode normalizer\<close>

text \<open>\<open>s.lstrip('0')\<close>: drop the characters at the left end while they are \<open>'0'\<close>.\<close>

fun lstrip :: "char \<Rightarrow> string \<Rightarrow> string" where
  "lstrip c [] = []"
| "lstrip c (x # xs) = (if x = c then lstrip c xs else x # xs)"

text \<open>
  \<open>strip_leading_zeros\<close>, lines 31 to 57.  The first step is the
  \<open>isinstance\<close> test with its \<open>try: str(...) except Exception: raise TypeError\<close>;
  the second is \<open>lstrip\<close> and the test
  \<open>barcode_str and not stripped_barcode and '0' in barcode_str\<close>.
\<close>

definition coerce_barcode :: "pyarg \<Rightarrow> exn + string" where
  "coerce_barcode barcode_str =
     (if \<not> isinstance_str barcode_str then
        (case py_str barcode_str of
           Inr s \<Rightarrow> Inr s
         | Inl e \<Rightarrow>
             if is_Exception e
             then Inl (TypeError ''Input must be a string or convertible to a string.'')
             else Inl e)
      else py_str barcode_str)"

definition strip_zeros_str :: "string \<Rightarrow> string" where
  "strip_zeros_str barcode_str =
     (let stripped_barcode = lstrip CHR ''0'' barcode_str in
      if barcode_str \<noteq> [] \<and> stripped_barcode = [] \<and> CHR ''0'' \<in> set barcode_str
      then ''0''
      else stripped_barcode)"

definition strip_leading_zeros :: "pyarg \<Rightarrow> exn + string" where
  "strip_leading_zeros barcode_str =
     (case coerce_barcode barcode_str of
        Inl e \<Rightarrow> Inl e
      | Inr s \<Rightarrow> Inr (strip_zeros_str s))"

section \<open>The outside world\<close>

text \<open>
  A parsed JSON document, as \<open>response.json()\<close> returns it.  An object is a Python
  \<open>dict\<close>, kept as the list of its items in insertion order; \<open>JNull\<close> is Python's
  \<open>None\<close>.  A JSON number is an \<open>int\<close> or a \<open>float\<close>; a finite float is the
  rational it denotes, and \<open>JNonFinite\<close> stands for \<open>nan\<close> and the infinities.
\<close>

datatype json =
    JNull
  | JBool bool
  | JInt int
  | JFloat rat
  | JNonFinite
  | JStr string
  | JArr "json list"
  | JObj "(string \<times> json) list"

text \<open>\<open>x == 1\<close> in Python: \<open>True == 1\<close> and \<open>1.0 == 1\<close> hold.\<close>

fun py_eq_1 :: "json \<Rightarrow> bool" where
  "py_eq_1 (JInt i) = (i = 1)"
| "py_eq_1 (JBool b) = b"
| "py_eq_1 (JFloat q) = (q = 1)"
| "py_eq_1 _ = False"

text \<open>The truth value of an object in an \<open>if\<close>.\<close>

fun truthy :: "json \<Rightarrow> bool" where
  "truthy JNull = False"
| "truthy (JBool b) = b"
| "truthy (JInt i) = (i \<noteq> 0)"
| "truthy (JFloat q) = (q \<noteq> 0)"
| "truthy JNonFinite = True"
| "truthy (JStr s) = (s \<noteq> [])"
| "truthy (JArr xs) = (xs \<noteq> [])"
| "truthy (JObj d) = (d \<noteq> [])"

fun type_name :: "json \<Rightarrow> string" where
  "type_name JNull = ''NoneType''"
| "type_name (JBool _) = ''bool''"
| "type_name (JInt _) = ''int''"
| "type_name (JFloat _) = ''float''"
| "type_name JNonFinite = ''float''"
| "type_name (JStr _) = ''str''"
| "type_name (JArr _) = ''list''"
| "type_name (JObj _) = ''dict''"

definition no_attribute :: "json \<Rightarrow> string \<Rightarrow> exn" where
  "no_attribute v a =
     AttributeError ([CHR 0x27] @ type_name v @ [CHR 0x27] @ '' object has no attribute ''
                     @ [CHR 0x27] @ a @ [CHR 0x27])"

text \<open>\<open>d.get(k)\<close> on a dict: the value, or \<open>None\<close>.\<close>

definition dict_get :: "(string \<times> json) list \<Rightarrow> string \<Rightarrow> json" where
  "dict_get d k = (case map_of d k of None \<Rightarrow> JNull | Some v \<Rightarrow> v)"

text \<open>
  What \<open>requests.get\<close> hands back: the status code, the text that
  \<open>raise_for_status\<close> would put into its \<open>HTTPError\<close>, and what \<open>.json()\<close> does
  (return the parsed body or raise).
\<close>

record response =
  status_code :: nat
  error_text :: string
  json_body :: "exn + json"

type_synonym request = "string \<times> (string \<times> string) list"

text \<open>An image as PIL has opened it, and a symbol as pyzbar reports it.\<close>

datatype image = Image string

record decoded =
  data :: string

text \<open>The dog's details, the dictionary \<open>dog_info_dict\<close> of streamline.py.\<close>

record dog_info =
  breed :: string
  age :: rat
  weight_kg :: rat
  activity :: string
  allergies :: "string list"
  additional_info :: string

text \<open>
  The libraries and services that the code calls, as parameters: the HTTP transport,
  PIL's \<open>Image.open\<close> on the content of a file, pyzbar's \<open>decode\<close>,
  \<open>bytes.decode("utf-8")\<close>, the generative model (\<open>generate_content(p).text\<close>),
  \<open>str\<close> on the two dictionaries, \<open>pandas.DataFrame\<close> on the items to display
  (\<open>None\<close> when it builds the table, the exception otherwise), \<open>os.linesep\<close>, and
  the name \<open>tempfile.NamedTemporaryFile\<close> picks (or the exception it raises).
\<close>

record env =
  http_get :: "request \<Rightarrow> exn + response"
  image_open :: "string \<Rightarrow> exn + image"
  decode :: "image \<Rightarrow> exn + decoded list"
  utf8_decode :: "string \<Rightarrow> exn + string"
  generate_content :: "string \<Rightarrow> exn + string"
  str_json :: "json \<Rightarrow> string"
  str_dog :: "dog_info \<Rightarrow> string"
  data_frame :: "(string \<times> json) list \<Rightarrow> exn option"
  linesep :: string
  named_temporary_file :: "exn + string"

text \<open>What the user interface has been told to show.\<close>

datatype ui_msg =
    StError string
  | StSuccess string
  | StWarning string
  | StInfo string
  | StSubheader string
  | StMarkdown string
  | StDataframe "(string \<times> string) list"
  | StJson "(string \<times> json) list"

text \<open>
  Everything the code writes: the HTTP requests sent, the lines printed, the messages
  shown, the records of the log file, the prompts sent to the model, and the files
  on disk (a path and its content).
\<close>

record world =
  requests_sent :: "request list"
  stdout :: "string list"
  ui :: "ui_msg list"
  app_log :: "string list"
  prompts_sent :: "string list"
  files :: "(string \<times> string) list"

definition print :: "string \<Rightarrow> world \<Rightarrow> world" where
  "print line w = w\<lparr>stdout := stdout w @ [line]\<rparr>"

definition st :: "ui_msg \<Rightarrow> world \<Rightarrow> world" where
  "st m w = w\<lparr>ui := ui w @ [m]\<rparr>"

text \<open>Decimal digits of a natural number, for \<open>len(...)\<close> inside an f-string.\<close>

function show_nat :: "nat \<Rightarrow> string" where
  "show_nat n =
     (if n < 10 then [char_of (48 + n)]
      else show_nat (n div 10) @ [char_of (48 + n mod 10)])"
  by pat_completeness auto
termination
  by (relation "measure id") auto

section \<open>backend\_functions.py: the barcode decoder\<close>

text \<open>\<open>load_image\<close>, lines 11 to 14: \<open>Image.open\<close> on the file at the path.\<close>

definition load_image :: "env \<Rightarrow> string \<Rightarrow> world \<Rightarrow> exn + image" where
  "load_image E path_image w =
     (case map_of (files w) path_image of
        None \<Rightarrow> Inl (OSError ''No such file or directory'')
      | Some content \<Rightarrow> image_open E content)"

text \<open>
  \<open>scan_barcode_from_image\<close>, lines 15 to 28.  \<open>load_image\<close> and \<open>decode\<close> are
  called before the \<open>try\<close>, so what they raise leaves the function.  Inside the
  \<open>try\<close>, only \<open>.data.decode("utf-8")\<close> can raise; the \<open>else\<close> branch prints and
  falls off the end, which returns \<open>None\<close>.
\<close>

definition no_barcode_line :: string where
  "no_barcode_line = [CHR 0xE2, CHR 0x9D, CHR 0x8C] @ '' no barcode recocognized''"

definition scan_barcode_from_image ::
  "env \<Rightarrow> string \<Rightarrow> world \<Rightarrow> (exn + string option) \<times> world" where
  "scan_barcode_from_image E path_image w =
     (case load_image E path_image w of
        Inl e \<Rightarrow> (Inl e, w)
      | Inr img \<Rightarrow>
          (case decode E img of
             Inl e \<Rightarrow> (Inl e, w)
           | Inr decoded_objects \<Rightarrow>
               (case decoded_objects of
                  [] \<Rightarrow> (Inr None, print no_barcode_line w)
                | first # _ \<Rightarrow>
                    (let w1 = print (show_nat (length decoded_objects)
                                     @ '' barcode(s) recognized:'') w in
                     case utf8_decode E (data first) of
                       Inr payload \<Rightarrow> (Inr (Some payload), w1)
                     | Inl e \<Rightarrow>
                         if is_Exception e
                         then (Inr None,
                               print (''Barcode reading failed with '' @ exn_text e) w1)
                         else (Inl e, w1)))))"

section \<open>backend\_functions.py: the nutrition lookup client\<close>

definition url_prefix :: string where
  "url_prefix = ''https://world.openpetfoodfacts.org/api/v2/product/''"

definition url_suffix :: string where
  "url_suffix = ''?fields=product_name,brands,ingredients_text,ingredients_text,serving_size,energy-kcal_100g,fat_100g,carbohydrates_100g,proteins_100g''"

definition api_url :: "string \<Rightarrow> string" where
  "api_url stiped_barcode = url_prefix @ stiped_barcode @ url_suffix"

definition headers :: "(string \<times> string) list" where
  "headers = [(''User-Agent'', ''YourProjectName - Python - Version 1.0'')]"

text \<open>
  The two \<open>except\<close> clauses of lines 74 to 79, in their order; an exception of
  neither class leaves the function.
\<close>

definition handle_lookup_exn :: "exn \<Rightarrow> world \<Rightarrow> (exn + json) \<times> world" where
  "handle_lookup_exn e w =
     (if is_RequestException e
      then (Inr JNull, print (''API request failed: '' @ exn_text e) w)
      else if is_JSONDecodeError e
      then (Inr JNull, print ''Failed to parse API response'' w)
      else (Inl e, w))"

text \<open>\<open>response.raise_for_status()\<close> raises for the codes 400 to 599.\<close>

definition raise_for_status :: "response \<Rightarrow> exn option" where
  "raise_for_status r =
     (if 400 \<le> status_code r \<and> status_code r < 600
      then Some (HTTPError (error_text r)) else None)"

text \<open>
  Lines 67 to 72 on the parsed body.  \<open>data.get\<close> exists on a dict only; on any
  other value the attribute lookup raises \<open>AttributeError\<close>.
\<close>

definition select_product :: "json \<Rightarrow> exn + json" where
  "select_product body =
     (case body of
        JObj d \<Rightarrow>
          if py_eq_1 (dict_get d ''status'')
          then (case map_of d ''product'' of Some product \<Rightarrow> Inr product | None \<Rightarrow> Inr JNull)
          else Inr JNull
      | _ \<Rightarrow> Inl (no_attribute body ''get''))"

text \<open>
  \<open>get_nutrition_data\<close>, lines 60 to 79.  The result \<open>JNull\<close> is the \<open>None\<close> of
  lines 72, 76 and 79.
\<close>

definition get_nutrition_data :: "env \<Rightarrow> pyarg \<Rightarrow> world \<Rightarrow> (exn + json) \<times> world" where
  "get_nutrition_data E barcode_to_find w =
     (case py_str barcode_to_find of
        Inl e \<Rightarrow> (Inl e, w)
      | Inr s \<Rightarrow>
          (case strip_leading_zeros (PStr s) of
             Inl e \<Rightarrow> (Inl e, w)
           | Inr stiped_barcode \<Rightarrow>
               (let w1 = w\<lparr>requests_sent := requests_sent w @ [(api_url stiped_barcode, headers)]\<rparr> in
                case http_get E (api_url stiped_barcode, headers) of
                  Inl e \<Rightarrow> handle_lookup_exn e w1
                | Inr response \<Rightarrow>
                    (case raise_for_status response of
                       Some e \<Rightarrow> handle_lookup_exn e w1
                     | None \<Rightarrow>
                         (case json_body response of
                            Inl e \<Rightarrow> handle_lookup_exn e w1
                          | Inr body \<Rightarrow>
                              (case select_product body of
                                 Inl e \<Rightarrow> handle_lookup_exn e w1
                               | Inr result \<Rightarrow> (Inr result, w1)))))))"

section \<open>backend\_functions.py: the recommendation composer\<close>

definition base_prompt :: string where
  "base_prompt = ''Imagine you are a vetenarian specilised to work with dogs. You will be provided with dog race, age and weight. Furthermore will be provided with a specific type of dog food and its nutritions. Give me back a short and precise description on how much of the food the provided dog should eat and if it is generally good for him''"

text \<open>\<open>ai_agent.create_prompt_string\<close>, lines 96 to 104.\<close>

definition create_prompt_string :: "env \<Rightarrow> json \<Rightarrow> dog_info \<Rightarrow> string" where
  "create_prompt_string E food_dict dog_dict =
     base_prompt
     @ ''The dog has the following properties:''
     @ str_dog E dog_dict
     @ ''The food has the following properties:''
     @ str_json E food_dict"

text \<open>\<open>ai_agent.create_response\<close>, lines 106 to 111: one prompt, one answer.\<close>

definition create_response ::
  "env \<Rightarrow> json \<Rightarrow> dog_info \<Rightarrow> world \<Rightarrow> (exn + string) \<times> world" where
  "create_response E food_dict dog_dict w =
     (let prompt = create_prompt_string E food_dict dog_dict;
          w1 = w\<lparr>prompts_sent := prompts_sent w @ [prompt]\<rparr>
      in (generate_content E prompt, w1))"

section \<open>streamline.py: the interaction logger\<close>

text \<open>
  \<open>s.replace(old, new)\<close>: the occurrences of \<open>old\<close> are found from the left and do
  not overlap.  With an empty \<open>old\<close>, Python puts \<open>new\<close> before every character
  and at the end.
\<close>

function replace_from :: "string \<Rightarrow> string \<Rightarrow> string \<Rightarrow> string" where
  "replace_from old new [] = []"
| "replace_from old new (x # xs) =
     (if old \<noteq> [] \<and> take (length old) (x # xs) = old
      then new @ replace_from old new (drop (length old) (x # xs))
      else x # replace_from old new xs)"
  by pat_completeness auto
termination
  by (relation "measure (\<lambda>(old, new, s). length s)") auto

definition py_replace :: "string \<Rightarrow> string \<Rightarrow> string \<Rightarrow> string" where
  "py_replace old new s =
     (if old = [] then new @ concat (map (\<lambda>c. c # new) s)
      else replace_from old new s)"

text \<open>
  \<open>log_interaction\<close>, lines 41 to 49.  \<open>logging.info\<close> hands the message to the
  file handler, which appends one record; the log keeps the message of each record.
\<close>

definition log_message :: "env \<Rightarrow> string \<Rightarrow> dog_info \<Rightarrow> json \<Rightarrow> string \<Rightarrow> string" where
  "log_message E barcode dog nutrition_data recommendation =
     ''Interaction Log:'' @ [CHR 0x0A]
     @ [CHR 0x09] @ ''Barcode: '' @ barcode @ [CHR 0x0A]
     @ [CHR 0x09] @ ''Dog Info: '' @ str_dog E dog @ [CHR 0x0A]
     @ [CHR 0x09] @ ''Nutrition Data: '' @ str_json E nutrition_data @ [CHR 0x0A]
     @ [CHR 0x09] @ ''Recommendation: '' @ py_replace (linesep E) '' '' recommendation"

definition log_interaction ::
  "env \<Rightarrow> string \<Rightarrow> dog_info \<Rightarrow> json \<Rightarrow> string \<Rightarrow> world \<Rightarrow> world" where
  "log_interaction E barcode dog nutrition_data recommendation w =
     w\<lparr>app_log := app_log w @ [log_message E barcode dog nutrition_data recommendation]\<rparr>"

section \<open>streamline.py: the submission pipeline\<close>

definition os_remove :: "string \<Rightarrow> world \<Rightarrow> world" where
  "os_remove path w = w\<lparr>files := filter (\<lambda>(p, c). p \<noteq> path) (files w)\<rparr>"

text \<open>
  \<open>process_image_input\<close>, lines 51 to 69, on the bytes that \<open>getvalue()\<close> gives.
  The \<open>except Exception\<close> clause shows the error and the function returns \<open>None\<close>;
  the \<open>finally\<close> clause removes the temporary file when its path is known.
\<close>

definition process_image_input ::
  "env \<Rightarrow> string \<Rightarrow> world \<Rightarrow> (exn + string option) \<times> world" where
  "process_image_input E content w =
     (case named_temporary_file E of
        Inl e \<Rightarrow>
          if is_Exception e
          then (Inr None, st (StError (''Error processing image: '' @ exn_text e)) w)
          else (Inl e, w)
      | Inr temp_image_path \<Rightarrow>
          (let w1 = w\<lparr>files := (temp_image_path, content) # files w\<rparr> in
           case scan_barcode_from_image E temp_image_path w1 of
             (Inl e, w2) \<Rightarrow>
               if is_Exception e
               then (Inr None,
                     os_remove temp_image_path
                       (st (StError (''Error processing image: '' @ exn_text e)) w2))
               else (Inl e, os_remove temp_image_path w2)
           | (Inr None, w2) \<Rightarrow>
               (Inr None,
                os_remove temp_image_path
                  (st (StError ''Could not detect a barcode in the image. Please try entering it manually.'') w2))
           | (Inr (Some barcode), w2) \<Rightarrow>
               if barcode = []
               then (Inr None,
                     os_remove temp_image_path
                       (st (StError ''Could not detect a barcode in the image. Please try entering it manually.'') w2))
               else (Inr (Some barcode),
                     os_remove temp_image_path
                       (st (StSuccess (''Detected Barcode: '' @ barcode)) w2))))"

text \<open>
  The widgets of one run of the script.  \<open>dog\<close> is \<open>dog_info_dict\<close> as lines 133
  to 138 build it from the widgets.
\<close>

record form =
  submit_button :: bool
  uploaded_file :: "string option"
  camera_photo :: "string option"
  manual_barcode :: string
  dog :: dog_info
  app_password_input :: string

text \<open>Lines 120 to 130: where the barcode comes from.\<close>

definition barcode_input :: "env \<Rightarrow> form \<Rightarrow> world \<Rightarrow> (exn + string option) \<times> world" where
  "barcode_input E f w =
     (case uploaded_file f of
        Some file \<Rightarrow> process_image_input E file w
      | None \<Rightarrow>
          (case camera_photo f of
             Some photo \<Rightarrow> process_image_input E photo w
           | None \<Rightarrow>
               if manual_barcode f \<noteq> []
               then (Inr (Some (manual_barcode f)),
                     st (StSuccess (''Using Manual Barcode: '' @ manual_barcode f)) w)
               else (Inr None,
                     st (StWarning ''Please provide a barcode via image upload, webcam, or manual entry.'') w)))"

text \<open>Lines 142 to 148: the lookup under its \<open>try\<close>.\<close>

definition fetch_nutrition :: "env \<Rightarrow> string \<Rightarrow> world \<Rightarrow> (exn + json) \<times> world" where
  "fetch_nutrition E barcode_to_process w =
     (case get_nutrition_data E (PStr barcode_to_process) w of
        (Inl e, w1) \<Rightarrow>
          if is_Exception e
          then (Inr JNull, st (StError (''Error fetching nutrition data: '' @ exn_text e)) w1)
          else (Inl e, w1)
      | (Inr nutrition_info, w1) \<Rightarrow> (Inr nutrition_info, w1))"

text \<open>
  Lines 151 to 161: the table of the nutrition facts.  \<open>nutrition_info.items()\<close>
  stands before the \<open>try\<close>, so on a value that is not a dict the
  \<open>AttributeError\<close> leaves the script.
\<close>

definition show_nutrition :: "env \<Rightarrow> json \<Rightarrow> world \<Rightarrow> exn option \<times> world" where
  "show_nutrition E nutrition_info w =
     (let w1 = st (StSubheader ''Nutrition Information'') w in
      case nutrition_info of
        JObj d \<Rightarrow>
          (let display_info = filter (\<lambda>(k, v). v \<noteq> JNull) d in
           case data_frame E display_info of
             None \<Rightarrow>
               (None,
                st (StDataframe
                      (map (\<lambda>(k, v). (k, str_json E v))
                         (filter (\<lambda>(k, v). k \<noteq> ''schema_version'') display_info))) w1)
           | Some e \<Rightarrow>
               if is_Exception e
               then (None,
                     st (StJson display_info)
                       (st (StError (''Could not display nutrition data as table: '' @ exn_text e)) w1))
               else (Some e, w1))
      | _ \<Rightarrow> (Some (no_attribute nutrition_info ''items''), w1))"

text \<open>Lines 163 to 183: the password check, the recommendation and the log.\<close>

definition password_check ::
  "env \<Rightarrow> string \<Rightarrow> form \<Rightarrow> string \<Rightarrow> json \<Rightarrow> world \<Rightarrow> exn option \<times> world" where
  "password_check E CORRECT_PASSWORD f barcode_to_process nutrition_info w =
     (if CORRECT_PASSWORD = []
      then (None, st (StError ''Application password is not configured by the administrator. AI recommendations disabled.'') w)
      else if app_password_input f = CORRECT_PASSWORD
      then
        (case create_response E nutrition_info (dog f) w of
           (Inl e, w1) \<Rightarrow>
             if is_Exception e
             then (None, st (StError (''Error generating AI recommendation: '' @ exn_text e)) w1)
             else (Some e, w1)
         | (Inr ai_recommendation, w1) \<Rightarrow>
             (let w2 = st (StMarkdown ai_recommendation)
                         (st (StSubheader ''AI Veterinarian Recommendation'') w1) in
              if ai_recommendation \<noteq> []
              then (None,
                    st (StInfo ''Interaction logged successfully.'')
                      (log_interaction E barcode_to_process (dog f) nutrition_info
                         ai_recommendation w2))
              else (None, w2)))
      else if app_password_input f \<noteq> []
      then (None, st (StError ''Incorrect password. AI recommendation will not be generated.'') w)
      else (None, st (StWarning ''Password required to generate AI recommendation.'') w))"

text \<open>
  Lines 119 to 191: one run of the script.  The result is the exception that leaves
  the script, if any, and the world after the run.
\<close>

definition submit :: "env \<Rightarrow> string \<Rightarrow> form \<Rightarrow> world \<Rightarrow> exn option \<times> world" where
  "submit E CORRECT_PASSWORD f w =
     (if \<not> submit_button f
      then (None, st (StInfo ''Provide food barcode, your dog's details, then click 'Get Recommendation'.'') w)
      else
        (case barcode_input E f w of
           (Inl e, w1) \<Rightarrow> (Some e, w1)
         | (Inr None, w1) \<Rightarrow> (None, w1)
         | (Inr (Some barcode_to_process), w1) \<Rightarrow>
             if barcode_to_process = [] then (None, w1)
             else
               (let w2 = (if breed (dog f) = [] \<or> age (dog f) = 0 \<or> weight_kg (dog f) = 0
                          then st (StWarning ''Please provide at least the dog's breed, age, and weight for better recommendations.'') w1
                          else w1) in
                case fetch_nutrition E barcode_to_process w2 of
                  (Inl e, w3) \<Rightarrow> (Some e, w3)
                | (Inr nutrition_info, w3) \<Rightarrow>
                    if truthy nutrition_info
                    then
                      (case show_nutrition E nutrition_info w3 of
                         (Some e, w4) \<Rightarrow> (Some e, w4)
                       | (None, w4) \<Rightarrow>
                           password_check E CORRECT_PASSWORD f barcode_to_process
                             nutrition_info w4)
                    else (None,
                          st (StError (''Could not find nutrition information for barcode: ''
                                       @ barcode_to_process)) w3))))"

section \<open>Sample inputs\<close>

text \<open>\<open>sep.join(xs)\<close>, used to read the field list of the request.\<close>

fun join_with :: "string \<Rightarrow> string list \<Rightarrow> string" where
  "join_with sep [] = []"
| "join_with sep [x] = x"
| "join_with sep (x # y # ys) = x @ sep @ join_with sep (y # ys)"

text \<open>
  A world in which nothing has happened yet, and an environment built around a given
  HTTP transport: the image library rejects every file, the model answers with one
  line, tables render, and the line separator is the POSIX one.
\<close>

definition empty_world :: world where
  "empty_world =
     \<lparr>requests_sent = [], stdout = [], ui = [], app_log = [], prompts_sent = [], files = []\<rparr>"

definition sample_env :: "(request \<Rightarrow> exn + response) \<Rightarrow> env" where
  "sample_env h =
     \<lparr>http_get = h,
      image_open = (\<lambda>content. Inl (OSError ''cannot identify image file'')),
      decode = (\<lambda>img. Inr []),
      utf8_decode = (\<lambda>bytes. Inr bytes),
      generate_content = (\<lambda>prompt. Inr ''Feed 200 g per day.''),
      str_json = (\<lambda>j. ''{}''),
      str_dog = (\<lambda>d. breed d),
      data_frame = (\<lambda>items. None),
      linesep = [CHR 0x0A],
      named_temporary_file = Inr ''/tmp/tmp0.png''\<rparr>"

definition sample_dog :: dog_info where
  "sample_dog =
     \<lparr>breed = ''Labrador'', age = 3, weight_kg = 28, activity = ''Moderate'',
      allergies = [], additional_info = []\<rparr>"

definition sample_form :: form where
  "sample_form =
     \<lparr>submit_button = True, uploaded_file = None, camera_photo = None,
      manual_barcode = ''0000000000123'', dog = sample_dog, app_password_input = ''secret''\<rparr>"

text \<open>Six answers of the product database.\<close>

definition found_response :: response where
  "found_response =
     \<lparr>status_code = 200, error_text = [],
      json_body = Inr (JObj [(''status'', JInt 1),
                             (''product'', JObj [(''product_name'', JStr ''Test Kibble'')])])\<rparr>"

definition absent_response :: response where
  "absent_response =
     \<lparr>status_code = 200, error_text = [],
      json_body = Inr (JObj [(''status'', JInt 0), (''status_verbose'', JStr ''product not found'')])\<rparr>"

definition server_error_response :: response where
  "server_error_response =
     \<lparr>status_code = 500, error_text = ''500 Server Error'',
      json_body = Inl (RequestsJSONDecodeError ''Expecting value'')\<rparr>"

definition garbled_response :: response where
  "garbled_response =
     \<lparr>status_code = 200, error_text = [], json_body = Inl (JSONDecodeError ''Expecting value'')\<rparr>"

definition empty_product_response :: response where
  "empty_product_response =
     \<lparr>status_code = 200, error_text = [],
      json_body = Inr (JObj [(''status'', JInt 1), (''product'', JObj [])])\<rparr>"

definition array_response :: response where
  "array_response = \<lparr>status_code = 200, error_text = [], json_body = Inr (JArr [])\<rparr>"

section \<open>Properties of the normalizer\<close>

lemma lstrip_decompose:
  "\<exists>n. s = replicate n c @ lstrip c s"
proof (induction s)
  case Nil
  show ?case by simp
next
  case (Cons x xs)
  then obtain n where n: "xs = replicate n c @ lstrip c xs" by blast
  show ?case
  proof (cases "x = c")
    case True
    have "x # xs = replicate (Suc n) c @ lstrip c (x # xs)"
      using True n by simp
    then show ?thesis by blast
  next
    case False
    have "x # xs = replicate 0 c @ lstrip c (x # xs)"
      using False by simp
    then show ?thesis by blast
  qed
qed

lemma lstrip_no_leading:
  "lstrip c s = [] \<or> hd (lstrip c s) \<noteq> c"
  by (induction s) auto

lemma lstrip_idem:
  "lstrip c (lstrip c s) = lstrip c s"
  by (induction s) auto

lemma lstrip_all:
  "set s \<subseteq> {c} \<Longrightarrow> lstrip c s = []"
  by (induction s) auto

lemma lstrip_Nil_iff:
  "lstrip c s = [] \<longleftrightarrow> set s \<subseteq> {c}"
  by (induction s) auto

text \<open>
  C1.  On a string the normalizer never raises, and its result is the input without
  its leading \<open>'0'\<close> characters: the input is \<open>n\<close> zeros followed by a rest \<open>r\<close> that
  does not start with \<open>'0'\<close>, and the result is \<open>r\<close>, except that a non-empty input
  made of zeros only gives \<open>"0"\<close>.  The empty input gives the empty string.  The
  function reads nothing but its argument and writes nothing.
\<close>

theorem strip_leading_zeros_spec:
  "\<exists>n r. s = replicate n CHR ''0'' @ r
        \<and> (r = [] \<or> hd r \<noteq> CHR ''0'')
        \<and> strip_leading_zeros (PStr s) = Inr (if r = [] \<and> s \<noteq> [] then ''0'' else r)
        \<and> (s \<noteq> [] \<and> set s \<subseteq> {CHR ''0''} \<longrightarrow> strip_leading_zeros (PStr s) = Inr ''0'')
        \<and> (s = [] \<longrightarrow> strip_leading_zeros (PStr s) = Inr [])"
proof -
  obtain n where n: "s = replicate n CHR ''0'' @ lstrip CHR ''0'' s"
    using lstrip_decompose by blast
  have nl: "lstrip CHR ''0'' s = [] \<or> hd (lstrip CHR ''0'' s) \<noteq> CHR ''0''"
    by (rule lstrip_no_leading)
  have mem: "s \<noteq> [] \<Longrightarrow> lstrip CHR ''0'' s = [] \<Longrightarrow> CHR ''0'' \<in> set s"
    using lstrip_Nil_iff [of "CHR ''0''" s] by (cases s) auto
  have res: "strip_leading_zeros (PStr s)
      = Inr (if lstrip CHR ''0'' s = [] \<and> s \<noteq> [] then ''0'' else lstrip CHR ''0'' s)"
    using mem by (auto simp: strip_leading_zeros_def coerce_barcode_def strip_zeros_str_def Let_def)
  have zeros: "s \<noteq> [] \<and> set s \<subseteq> {CHR ''0''} \<longrightarrow> strip_leading_zeros (PStr s) = Inr ''0''"
    using res lstrip_all [of s "CHR ''0''"] by simp
  have empty: "s = [] \<longrightarrow> strip_leading_zeros (PStr s) = Inr []"
    by (simp add: strip_leading_zeros_def coerce_barcode_def strip_zeros_str_def)
  show ?thesis
    using n nl res zeros empty by blast
qed

theorem strip_leading_zeros_spec_witness:
  "strip_leading_zeros (PStr ''000'') = Inr ''0''
   \<and> strip_leading_zeros (PStr []) = Inr []"
proof -
  have a: "strip_leading_zeros (PStr ''000'') = Inr ''0''"
    using strip_leading_zeros_spec [of "''000''"] by auto
  have b: "strip_leading_zeros (PStr []) = Inr []"
    using strip_leading_zeros_spec [of "[]"] by auto
  show ?thesis using a b by simp
qed


lemma strip_zeros_str_idem:
  "strip_zeros_str (strip_zeros_str s) = strip_zeros_str s"
  by (auto simp: strip_zeros_str_def Let_def lstrip_idem)

text \<open>
  C2.  Normalization is idempotent: the normalizer returns a string \<open>t\<close> on every
  string, and normalizing \<open>t\<close> again returns \<open>t\<close>; in particular \<open>"0"\<close> stays
  \<open>"0"\<close> and the empty string stays empty.
\<close>

theorem strip_leading_zeros_idempotent:
  "\<exists>t. strip_leading_zeros (PStr s) = Inr t
       \<and> strip_leading_zeros (PStr t) = Inr t
       \<and> strip_leading_zeros (PStr ''0'') = Inr ''0''
       \<and> strip_leading_zeros (PStr []) = Inr []"
proof -
  have a: "strip_leading_zeros (PStr s) = Inr (strip_zeros_str s)"
    by (simp add: strip_leading_zeros_def coerce_barcode_def)
  have b: "strip_leading_zeros (PStr (strip_zeros_str s)) = Inr (strip_zeros_str s)"
    by (simp add: strip_leading_zeros_def coerce_barcode_def strip_zeros_str_idem)
  have c: "strip_leading_zeros (PStr ''0'') = Inr ''0''"
    by (simp add: strip_leading_zeros_def coerce_barcode_def strip_zeros_str_def)
  have d: "strip_leading_zeros (PStr []) = Inr []"
    by (simp add: strip_leading_zeros_def coerce_barcode_def strip_zeros_str_def)
  show ?thesis using a b c d by blast
qed


section \<open>Properties of the lookup client and the decoder\<close>


lemma get_nutrition_data_str:
  "py_str v = Inr s \<Longrightarrow>
   get_nutrition_data E v w =
     (let w1 = w\<lparr>requests_sent := requests_sent w @ [(api_url (strip_zeros_str s), headers)]\<rparr> in
      case http_get E (api_url (strip_zeros_str s), headers) of
        Inl e \<Rightarrow> handle_lookup_exn e w1
      | Inr response \<Rightarrow>
          (case raise_for_status response of
             Some e \<Rightarrow> handle_lookup_exn e w1
           | None \<Rightarrow>
               (case json_body response of
                  Inl e \<Rightarrow> handle_lookup_exn e w1
                | Inr body \<Rightarrow>
                    (case select_product body of
                       Inl e \<Rightarrow> handle_lookup_exn e w1
                     | Inr result \<Rightarrow> (Inr result, w1)))))"
  by (simp add: get_nutrition_data_def strip_leading_zeros_def coerce_barcode_def)

text \<open>
  C3, as amended.  For a barcode that \<open>str\<close> can render and a transport that
  answers, the lookup does not raise and returns \<open>None\<close> in each of these cases: the
  status is one that \<open>raise_for_status\<close> rejects (400 to 599); the status is
  accepted and \<open>.json()\<close> raises a JSON decode error; the status is accepted and the
  body is an object whose status is not 1 or which has no product.  The two error
  cases print one line, the absent product prints none: the value returned does not
  tell them apart.
\<close>

theorem lookup_outcomes:
  assumes "py_str v = Inr s"
    and "http_get E (api_url (strip_zeros_str s), headers) = Inr r"
  shows "(400 \<le> status_code r \<and> status_code r < 600 \<longrightarrow>
            get_nutrition_data E v w =
              (Inr JNull,
               print (''API request failed: '' @ error_text r)
                 (w\<lparr>requests_sent := requests_sent w @ [(api_url (strip_zeros_str s), headers)]\<rparr>)))
       \<and> (\<not> (400 \<le> status_code r \<and> status_code r < 600) \<longrightarrow>
            (\<forall>e. json_body r = Inl e \<and> is_JSONDecodeError e \<longrightarrow>
               fst (get_nutrition_data E v w) = Inr JNull
               \<and> length (stdout (snd (get_nutrition_data E v w))) = Suc (length (stdout w)))
          \<and> (\<forall>d. json_body r = Inr (JObj d)
                  \<and> \<not> (py_eq_1 (dict_get d ''status'') \<and> map_of d ''product'' \<noteq> None) \<longrightarrow>
               get_nutrition_data E v w =
                 (Inr JNull,
                  w\<lparr>requests_sent := requests_sent w @ [(api_url (strip_zeros_str s), headers)]\<rparr>)))"
  using assms
  by (auto simp: get_nutrition_data_str raise_for_status_def handle_lookup_exn_def
      select_product_def print_def Let_def split: option.splits)

theorem lookup_outcomes_witness:
  "get_nutrition_data (sample_env (\<lambda>q. Inr server_error_response)) (PStr ''0000000000123'') empty_world
     = (Inr JNull,
        print ''API request failed: 500 Server Error''
          (empty_world\<lparr>requests_sent := [(api_url ''123'', headers)]\<rparr>))
   \<and> get_nutrition_data (sample_env (\<lambda>q. Inr absent_response)) (PStr ''0000000000123'') empty_world
     = (Inr JNull, empty_world\<lparr>requests_sent := [(api_url ''123'', headers)]\<rparr>)
   \<and> fst (get_nutrition_data (sample_env (\<lambda>q. Inr garbled_response)) (PStr ''0000000000123'')
          empty_world) = Inr JNull
   \<and> length (stdout (snd (get_nutrition_data (sample_env (\<lambda>q. Inr garbled_response))
                             (PStr ''0000000000123'') empty_world))) = 1"
proof -
  have s: "strip_zeros_str ''0000000000123'' = ''123''"
    by (simp add: strip_zeros_str_def)
  have a: "py_str (PStr ''0000000000123'') = Inr ''0000000000123''" by simp
  have b: "http_get (sample_env (\<lambda>q. Inr server_error_response))
             (api_url (strip_zeros_str ''0000000000123''), headers) = Inr server_error_response"
    by (simp add: sample_env_def)
  have c: "http_get (sample_env (\<lambda>q. Inr absent_response))
             (api_url (strip_zeros_str ''0000000000123''), headers) = Inr absent_response"
    by (simp add: sample_env_def)
  have d: "http_get (sample_env (\<lambda>q. Inr garbled_response))
             (api_url (strip_zeros_str ''0000000000123''), headers) = Inr garbled_response"
    by (simp add: sample_env_def)
  have g: "\<not> (400 \<le> status_code garbled_response \<and> status_code garbled_response < 600)"
    "json_body garbled_response = Inl (JSONDecodeError ''Expecting value'')
     \<and> is_JSONDecodeError (JSONDecodeError ''Expecting value'')"
    by (simp_all add: garbled_response_def)
  have x: "get_nutrition_data (sample_env (\<lambda>q. Inr server_error_response))
             (PStr ''0000000000123'') empty_world
           = (Inr JNull,
              print ''API request failed: 500 Server Error''
                (empty_world\<lparr>requests_sent := [(api_url ''123'', headers)]\<rparr>))"
    using lookup_outcomes [OF a b, of empty_world]
    by (simp add: s server_error_response_def empty_world_def)
  have y: "get_nutrition_data (sample_env (\<lambda>q. Inr absent_response))
             (PStr ''0000000000123'') empty_world
           = (Inr JNull, empty_world\<lparr>requests_sent := [(api_url ''123'', headers)]\<rparr>)"
    using lookup_outcomes [OF a c, of empty_world]
    by (simp add: s absent_response_def empty_world_def dict_get_def)
  have z: "fst (get_nutrition_data (sample_env (\<lambda>q. Inr garbled_response))
                  (PStr ''0000000000123'') empty_world) = Inr JNull
           \<and> length (stdout (snd (get_nutrition_data (sample_env (\<lambda>q. Inr garbled_response))
                                     (PStr ''0000000000123'') empty_world)))
               = Suc (length (stdout empty_world))"
    using lookup_outcomes [OF a d, of empty_world, THEN conjunct2, THEN mp, OF g(1),
        THEN conjunct1, THEN spec, THEN mp, OF g(2)]
    by simp
  have e0: "stdout empty_world = []" by (simp add: empty_world_def)
  show ?thesis using x y z by (simp add: e0)
qed

text \<open>
  C3 as stated asks for an error outcome distinct from the absent product; a server
  error and an absent product give the same value.
\<close>

theorem lookup_outcomes_counterexample:
  "fst (get_nutrition_data (sample_env (\<lambda>q. Inr absent_response)) (PStr ''123'') empty_world)
     = fst (get_nutrition_data (sample_env (\<lambda>q. Inr server_error_response)) (PStr ''123'') empty_world)"
  by (simp add: get_nutrition_data_def strip_leading_zeros_def coerce_barcode_def
      strip_zeros_str_def sample_env_def absent_response_def server_error_response_def
      raise_for_status_def handle_lookup_exn_def select_product_def dict_get_def Let_def)


text \<open>
  C4.  The lookup normalizes the rendered barcode, and sends exactly one request: a
  GET of the product endpoint followed by the normalized barcode and the field list
  (product name, brands, ingredients text twice, serving size, energy, fat,
  carbohydrates and proteins per 100g), with the \<open>User-Agent\<close> header.
\<close>

theorem request_construction:
  assumes "py_str v = Inr s"
  shows "\<exists>n. strip_leading_zeros (PStr s) = Inr n
           \<and> requests_sent (snd (get_nutrition_data E v w))
               = requests_sent w
                 @ [(''https://world.openpetfoodfacts.org/api/v2/product/'' @ n
                     @ ''?fields=''
                     @ join_with '',''
                         [''product_name'', ''brands'', ''ingredients_text'', ''ingredients_text'',
                          ''serving_size'', ''energy-kcal_100g'', ''fat_100g'',
                          ''carbohydrates_100g'', ''proteins_100g''],
                     [(''User-Agent'', ''YourProjectName - Python - Version 1.0'')])]"
proof -
  have n: "strip_leading_zeros (PStr s) = Inr (strip_zeros_str s)"
    by (simp add: strip_leading_zeros_def coerce_barcode_def)
  have u: "api_url (strip_zeros_str s)
             = ''https://world.openpetfoodfacts.org/api/v2/product/'' @ strip_zeros_str s
               @ ''?fields=''
               @ join_with '',''
                   [''product_name'', ''brands'', ''ingredients_text'', ''ingredients_text'',
                    ''serving_size'', ''energy-kcal_100g'', ''fat_100g'',
                    ''carbohydrates_100g'', ''proteins_100g'']"
    by (simp add: api_url_def url_prefix_def url_suffix_def)
  have h: "headers = [(''User-Agent'', ''YourProjectName - Python - Version 1.0'')]"
    by (simp add: headers_def)
  have r: "requests_sent (snd (get_nutrition_data E v w))
             = requests_sent w @ [(api_url (strip_zeros_str s), headers)]"
    using assms
    by (auto simp: get_nutrition_data_str handle_lookup_exn_def print_def Let_def
        split: sum.splits option.splits)
  show ?thesis
    using n r u h by simp
qed

theorem request_construction_witness:
  "requests_sent (snd (get_nutrition_data (sample_env (\<lambda>q. Inr found_response))
                         (PStr ''0000000000123'') empty_world))
     = [(''https://world.openpetfoodfacts.org/api/v2/product/123?fields=product_name,brands,ingredients_text,ingredients_text,serving_size,energy-kcal_100g,fat_100g,carbohydrates_100g,proteins_100g'',
         [(''User-Agent'', ''YourProjectName - Python - Version 1.0'')])]"
proof -
  have a: "py_str (PStr ''0000000000123'') = Inr ''0000000000123''" by simp
  have n: "strip_leading_zeros (PStr ''0000000000123'') = Inr ''123''"
    by (simp add: strip_leading_zeros_def coerce_barcode_def strip_zeros_str_def)
  show ?thesis
    using request_construction [OF a, of "sample_env (\<lambda>q. Inr found_response)" empty_world]
    by (simp add: n empty_world_def)
qed

text \<open>
  C5, as amended.  For a 2xx response whose body is a JSON object, the lookup returns
  the value under \<open>product\<close>, as it is, exactly when the status equals 1 and the key
  \<open>product\<close> is present, and \<open>None\<close> otherwise.
\<close>

theorem product_payload:
  assumes "py_str v = Inr s"
    and "http_get E (api_url (strip_zeros_str s), headers) = Inr r"
    and "200 \<le> status_code r" and "status_code r < 300"
    and "json_body r = Inr (JObj d)"
  shows "fst (get_nutrition_data E v w)
           = Inr (if py_eq_1 (dict_get d ''status'')
                  then (case map_of d ''product'' of Some product \<Rightarrow> product | None \<Rightarrow> JNull)
                  else JNull)"
  using assms
  by (auto simp: get_nutrition_data_str raise_for_status_def select_product_def Let_def
      split: option.splits)

theorem product_payload_witness:
  "fst (get_nutrition_data (sample_env (\<lambda>q. Inr found_response)) (PStr ''0000000000123'') empty_world)
     = Inr (JObj [(''product_name'', JStr ''Test Kibble'')])"
proof -
  have a: "py_str (PStr ''0000000000123'') = Inr ''0000000000123''" by simp
  have b: "http_get (sample_env (\<lambda>q. Inr found_response))
             (api_url (strip_zeros_str ''0000000000123''), headers) = Inr found_response"
    by (simp add: sample_env_def)
  have c: "200 \<le> status_code found_response" "status_code found_response < 300"
    by (simp_all add: found_response_def)
  have d: "json_body found_response
             = Inr (JObj [(''status'', JInt 1),
                          (''product'', JObj [(''product_name'', JStr ''Test Kibble'')])])"
    by (simp add: found_response_def)
  show ?thesis
    using product_payload [OF a b c d, of empty_world]
    by (simp add: dict_get_def)
qed

text \<open>
  C5 as stated covers every valid JSON body; on the body \<open>[]\<close> the lookup raises
  \<open>AttributeError\<close> instead of returning.
\<close>

theorem product_payload_counterexample:
  "fst (get_nutrition_data (sample_env (\<lambda>q. Inr array_response)) (PStr ''123'') empty_world)
     = Inl (AttributeError ([CHR 0x27] @ ''list'' @ [CHR 0x27] @ '' object has no attribute ''
                            @ [CHR 0x27] @ ''get'' @ [CHR 0x27]))"
  by (simp add: get_nutrition_data_def strip_leading_zeros_def coerce_barcode_def
      strip_zeros_str_def sample_env_def array_response_def
      raise_for_status_def handle_lookup_exn_def select_product_def no_attribute_def Let_def)

text \<open>
  C6.  When the image loads and the symbol detection reports its list, the decoder
  returns the UTF-8 text of the first symbol of the list if there is one, and \<open>None\<close>
  if the list is empty.
\<close>

theorem scan_first_symbol:
  assumes "load_image E path_image w = Inr img"
    and "decode E img = Inr decoded_objects"
  shows "(\<forall>first rest payload.
            decoded_objects = first # rest \<and> utf8_decode E (data first) = Inr payload \<longrightarrow>
              fst (scan_barcode_from_image E path_image w) = Inr (Some payload))
       \<and> (decoded_objects = [] \<longrightarrow> fst (scan_barcode_from_image E path_image w) = Inr None)"
  using assms
  by (auto simp: scan_barcode_from_image_def Let_def)

theorem scan_first_symbol_witness:
  "fst (scan_barcode_from_image
          ((sample_env (\<lambda>q. Inr found_response))
             \<lparr>image_open := (\<lambda>c. Inr (Image c)),
              decode := (\<lambda>i. Inr [\<lparr>data = ''0049000028911''\<rparr>, \<lparr>data = ''77''\<rparr>])\<rparr>)
          ''a.png'' (empty_world\<lparr>files := [(''a.png'', ''pixels'')]\<rparr>))
     = Inr (Some ''0049000028911'')
   \<and> fst (scan_barcode_from_image
          ((sample_env (\<lambda>q. Inr found_response))\<lparr>image_open := (\<lambda>c. Inr (Image c))\<rparr>)
          ''a.png'' (empty_world\<lparr>files := [(''a.png'', ''pixels'')]\<rparr>))
     = Inr None"
proof -
  let ?E1 = "(sample_env (\<lambda>q. Inr found_response))
             \<lparr>image_open := (\<lambda>c. Inr (Image c)),
              decode := (\<lambda>i. Inr [\<lparr>data = ''0049000028911''\<rparr>, \<lparr>data = ''77''\<rparr>])\<rparr>"
  let ?E2 = "(sample_env (\<lambda>q. Inr found_response))\<lparr>image_open := (\<lambda>c. Inr (Image c))\<rparr>"
  let ?w = "empty_world\<lparr>files := [(''a.png'', ''pixels'')]\<rparr>"
  have a1: "load_image ?E1 ''a.png'' ?w = Inr (Image ''pixels'')"
    by (simp add: load_image_def sample_env_def empty_world_def)
  have b1: "decode ?E1 (Image ''pixels'') = Inr [\<lparr>data = ''0049000028911''\<rparr>, \<lparr>data = ''77''\<rparr>]"
    by (simp add: sample_env_def)
  have c1: "utf8_decode ?E1 (data \<lparr>data = ''0049000028911''\<rparr>) = Inr ''0049000028911''"
    by (simp add: sample_env_def)
  have a2: "load_image ?E2 ''a.png'' ?w = Inr (Image ''pixels'')"
    by (simp add: load_image_def sample_env_def empty_world_def)
  have b2: "decode ?E2 (Image ''pixels'') = Inr []"
    by (simp add: sample_env_def)
  show ?thesis
    using scan_first_symbol [OF a1 b1] scan_first_symbol [OF a2 b2] c1
    by simp
qed

text \<open>
  C10.  When \<open>str(v)\<close> returns \<open>s\<close>, the lookup on \<open>v\<close> is the lookup on \<open>s\<close>, and
  the normalizer on \<open>v\<close> is the normalizer on \<open>s\<close>, which returns.  When \<open>str(v)\<close>
  raises, the lookup raises the same exception before any request, and the normalizer
  raises (\<open>TypeError\<close> for an exception of class \<open>Exception\<close>).
\<close>

theorem non_string_input:
  "(\<forall>s. py_str v = Inr s \<longrightarrow>
        get_nutrition_data E v w = get_nutrition_data E (PStr s) w
      \<and> strip_leading_zeros v = strip_leading_zeros (PStr s)
      \<and> strip_leading_zeros v = Inr (strip_zeros_str s))
 \<and> (\<forall>e. py_str v = Inl e \<longrightarrow>
        get_nutrition_data E v w = (Inl e, w)
      \<and> strip_leading_zeros v
          = Inl (if is_Exception e
                 then TypeError ''Input must be a string or convertible to a string.''
                 else e))"
  by (cases v) (auto simp: get_nutrition_data_def strip_leading_zeros_def coerce_barcode_def)

theorem non_string_input_witness:
  "get_nutrition_data (sample_env (\<lambda>q. Inr found_response)) (PObj (Inr ''0042'')) empty_world
     = get_nutrition_data (sample_env (\<lambda>q. Inr found_response)) (PStr ''0042'') empty_world
   \<and> strip_leading_zeros (PObj (Inr ''0042'')) = Inr ''42''
   \<and> get_nutrition_data (sample_env (\<lambda>q. Inr found_response))
        (PObj (Inl (OtherException ''no text''))) empty_world
     = (Inl (OtherException ''no text''), empty_world)
   \<and> strip_leading_zeros (PObj (Inl (OtherException ''no text'')))
     = Inl (TypeError ''Input must be a string or convertible to a string.'')"
proof -
  let ?E = "sample_env (\<lambda>q. Inr found_response)"
  have s: "strip_zeros_str ''0042'' = ''42''"
    by (simp add: strip_zeros_str_def)
  have p: "py_str (PObj (Inr ''0042'')) = Inr ''0042''" by simp
  have q: "py_str (PObj (Inl (OtherException ''no text''))) = Inl (OtherException ''no text'')"
    by simp
  have a: "get_nutrition_data ?E (PObj (Inr ''0042'')) empty_world
             = get_nutrition_data ?E (PStr ''0042'') empty_world"
    using non_string_input [of "PObj (Inr ''0042'')" ?E empty_world] p by blast
  have b: "strip_leading_zeros (PObj (Inr ''0042'')) = Inr ''42''"
    using non_string_input [of "PObj (Inr ''0042'')" ?E empty_world] p s by metis
  have c: "get_nutrition_data ?E (PObj (Inl (OtherException ''no text''))) empty_world
             = (Inl (OtherException ''no text''), empty_world)"
    using non_string_input [of "PObj (Inl (OtherException ''no text''))" ?E empty_world] q
    by blast
  have d: "strip_leading_zeros (PObj (Inl (OtherException ''no text'')))
             = Inl (TypeError ''Input must be a string or convertible to a string.'')"
    using non_string_input [of "PObj (Inl (OtherException ''no text''))" ?E empty_world] q
    by simp
  show ?thesis using a b c d by blast
qed



section \<open>Properties of the submission pipeline\<close>


lemma st_simps:
  "ui (st m w) = ui w @ [m]" "app_log (st m w) = app_log w"
  "prompts_sent (st m w) = prompts_sent w" "files (st m w) = files w"
  "stdout (st m w) = stdout w" "requests_sent (st m w) = requests_sent w"
  by (simp_all add: st_def)

lemma print_simps:
  "ui (print m w) = ui w" "app_log (print m w) = app_log w"
  "prompts_sent (print m w) = prompts_sent w" "files (print m w) = files w"
  "requests_sent (print m w) = requests_sent w"
  by (simp_all add: print_def)

lemma os_remove_simps:
  "ui (os_remove p w) = ui w" "app_log (os_remove p w) = app_log w"
  "prompts_sent (os_remove p w) = prompts_sent w"
  by (simp_all add: os_remove_def)

lemma scan_frame:
  "app_log (snd (scan_barcode_from_image E p w)) = app_log w
   \<and> prompts_sent (snd (scan_barcode_from_image E p w)) = prompts_sent w
   \<and> ui (snd (scan_barcode_from_image E p w)) = ui w
   \<and> files (snd (scan_barcode_from_image E p w)) = files w"
  by (simp add: scan_barcode_from_image_def print_simps Let_def
      split: sum.splits list.splits)

lemma process_image_input_frame:
  "app_log (snd (process_image_input E c w)) = app_log w
   \<and> prompts_sent (snd (process_image_input E c w)) = prompts_sent w"
proof -
  have k: "\<And>p w1. app_log (snd (scan_barcode_from_image E p w1)) = app_log w1
                 \<and> prompts_sent (snd (scan_barcode_from_image E p w1)) = prompts_sent w1"
    using scan_frame by blast
  show ?thesis
  proof (cases "named_temporary_file E")
    case (Inl e)
    then show ?thesis by (simp add: process_image_input_def st_simps)
  next
    case (Inr p)
    obtain r w2 where s: "scan_barcode_from_image E p (w\<lparr>files := (p, c) # files w\<rparr>) = (r, w2)"
      by (cases "scan_barcode_from_image E p (w\<lparr>files := (p, c) # files w\<rparr>)") blast
    have f: "app_log w2 = app_log w \<and> prompts_sent w2 = prompts_sent w"
      using k [of p "w\<lparr>files := (p, c) # files w\<rparr>"] s by simp
    show ?thesis
      using Inr s f
      by (simp add: process_image_input_def st_simps os_remove_simps Let_def
          split: sum.splits option.splits)
  qed
qed

lemma barcode_input_frame:
  "app_log (snd (barcode_input E f w)) = app_log w
   \<and> prompts_sent (snd (barcode_input E f w)) = prompts_sent w"
  using process_image_input_frame
  by (simp add: barcode_input_def st_simps split: option.splits)

lemma handle_lookup_exn_frame:
  "app_log (snd (handle_lookup_exn e w)) = app_log w
   \<and> prompts_sent (snd (handle_lookup_exn e w)) = prompts_sent w
   \<and> ui (snd (handle_lookup_exn e w)) = ui w
   \<and> fst (handle_lookup_exn e w) = fst (handle_lookup_exn e w')"
  by (simp add: handle_lookup_exn_def print_simps)

lemma get_nutrition_data_frame:
  "app_log (snd (get_nutrition_data E v w)) = app_log w
   \<and> prompts_sent (snd (get_nutrition_data E v w)) = prompts_sent w
   \<and> ui (snd (get_nutrition_data E v w)) = ui w"
  by (simp add: get_nutrition_data_def handle_lookup_exn_frame Let_def
      split: sum.splits option.splits)

lemma get_nutrition_data_value:
  "fst (get_nutrition_data E v w) = fst (get_nutrition_data E v w')"
  using handle_lookup_exn_frame
  by (simp add: get_nutrition_data_def Let_def split: sum.splits option.splits)

lemma fetch_nutrition_frame:
  "app_log (snd (fetch_nutrition E b w)) = app_log w
   \<and> prompts_sent (snd (fetch_nutrition E b w)) = prompts_sent w"
proof -
  obtain r w1 where g: "get_nutrition_data E (PStr b) w = (r, w1)"
    by (cases "get_nutrition_data E (PStr b) w") blast
  have "app_log w1 = app_log w \<and> prompts_sent w1 = prompts_sent w"
    using get_nutrition_data_frame [of E "PStr b" w] g by simp
  then show ?thesis
    using g by (simp add: fetch_nutrition_def st_simps split: sum.splits)
qed

lemma fetch_nutrition_value:
  "fst (get_nutrition_data E (PStr b) wa) = Inr n \<Longrightarrow> fst (fetch_nutrition E b w) = Inr n"
proof -
  assume a: "fst (get_nutrition_data E (PStr b) wa) = Inr n"
  have "fst (get_nutrition_data E (PStr b) w) = Inr n"
    using a get_nutrition_data_value [of E "PStr b" w wa] by simp
  then show ?thesis
    by (cases "get_nutrition_data E (PStr b) w") (simp add: fetch_nutrition_def)
qed

lemma show_nutrition_frame:
  "app_log (snd (show_nutrition E n w)) = app_log w
   \<and> prompts_sent (snd (show_nutrition E n w)) = prompts_sent w"
  by (simp add: show_nutrition_def st_simps Let_def split: json.splits option.splits)


text \<open>
  C7.  When the uploaded bytes cannot be read as an image (\<open>Image.open\<close> raises, or
  the symbol detection raises while loading the pixel data), the decoder raises that
  exception and returns no barcode, and the caller recovers: \<open>process_image_input\<close>
  shows the error, removes the temporary file and returns \<open>None\<close>, and the run of
  the script that called it ends without an exception.
\<close>

theorem undecodable_image_recoverable:
  assumes "named_temporary_file E = Inr path"
    and "image_open E content = Inl e
         \<or> (\<exists>img. image_open E content = Inr img \<and> decode E img = Inl e)"
    and "is_Exception e"
  shows "fst (scan_barcode_from_image E path (w\<lparr>files := (path, content) # files w\<rparr>)) = Inl e
       \<and> process_image_input E content w
           = (Inr None,
              os_remove path
                (st (StError (''Error processing image: '' @ exn_text e))
                   (w\<lparr>files := (path, content) # files w\<rparr>)))
       \<and> (submit_button f \<and> (uploaded_file f = Some content
                              \<or> uploaded_file f = None \<and> camera_photo f = Some content) \<longrightarrow>
            submit E pw f w
              = (None,
                 os_remove path
                   (st (StError (''Error processing image: '' @ exn_text e))
                      (w\<lparr>files := (path, content) # files w\<rparr>))))"
proof -
  let ?w1 = "w\<lparr>files := (path, content) # files w\<rparr>"
  have sc: "scan_barcode_from_image E path ?w1 = (Inl e, ?w1)"
    using assms(2) by (auto simp: scan_barcode_from_image_def load_image_def)
  have pi: "process_image_input E content w
              = (Inr None,
                 os_remove path (st (StError (''Error processing image: '' @ exn_text e)) ?w1))"
    using assms(1) assms(3) sc by (simp add: process_image_input_def)
  have su: "submit_button f \<and> (uploaded_file f = Some content
                              \<or> uploaded_file f = None \<and> camera_photo f = Some content) \<longrightarrow>
            submit E pw f w
              = (None,
                 os_remove path (st (StError (''Error processing image: '' @ exn_text e)) ?w1))"
    using pi by (auto simp: submit_def barcode_input_def)
  show ?thesis using sc pi su by simp
qed

theorem undecodable_image_recoverable_witness:
  "fst (scan_barcode_from_image (sample_env (\<lambda>q. Inr found_response)) ''/tmp/tmp0.png''
          (empty_world\<lparr>files := [(''/tmp/tmp0.png'', ''not an image'')]\<rparr>))
     = Inl (OSError ''cannot identify image file'')
   \<and> submit (sample_env (\<lambda>q. Inr found_response)) ''secret''
        (sample_form\<lparr>uploaded_file := Some ''not an image''\<rparr>) empty_world
     = (None, empty_world\<lparr>ui := [StError ''Error processing image: cannot identify image file'']\<rparr>)"
proof -
  let ?E = "sample_env (\<lambda>q. Inr found_response)"
  let ?f = "sample_form\<lparr>uploaded_file := Some ''not an image''\<rparr>"
  have a: "named_temporary_file ?E = Inr ''/tmp/tmp0.png''"
    by (simp add: sample_env_def)
  have b: "image_open ?E ''not an image'' = Inl (OSError ''cannot identify image file'')
           \<or> (\<exists>img. image_open ?E ''not an image'' = Inr img
                    \<and> decode ?E img = Inl (OSError ''cannot identify image file''))"
    by (simp add: sample_env_def)
  have c: "is_Exception (OSError ''cannot identify image file'')" by simp
  have d: "submit_button ?f \<and> (uploaded_file ?f = Some ''not an image''
             \<or> uploaded_file ?f = None \<and> camera_photo ?f = Some ''not an image'')"
    by (simp add: sample_form_def)
  show ?thesis
    using undecodable_image_recoverable [OF a b c, of empty_world ?f "''secret''"] d
    by (simp add: empty_world_def os_remove_def st_def)
qed

lemma password_check_closed:
  "pw = [] \<or> app_password_input f \<noteq> pw \<Longrightarrow>
   fst (password_check E pw f b n w) = None
   \<and> app_log (snd (password_check E pw f b n w)) = app_log w
   \<and> prompts_sent (snd (password_check E pw f b n w)) = prompts_sent w
   \<and> set (ui w) \<subseteq> set (ui (snd (password_check E pw f b n w)))"
  by (auto simp: password_check_def st_simps)

lemma password_check_open:
  "pw \<noteq> [] \<Longrightarrow> app_password_input f = pw \<Longrightarrow>
   prompts_sent (snd (password_check E pw f b n w))
     = prompts_sent w @ [create_prompt_string E n (dog f)]
   \<and> set (ui w) \<subseteq> set (ui (snd (password_check E pw f b n w)))
   \<and> app_log (snd (password_check E pw f b n w))
       = app_log w
         @ (case generate_content E (create_prompt_string E n (dog f)) of
              Inl e \<Rightarrow> []
            | Inr r \<Rightarrow> if r \<noteq> [] then [log_message E b (dog f) n r] else [])"
  by (auto simp: password_check_def create_response_def log_interaction_def st_simps st_def
      Let_def split: sum.splits)

lemma show_nutrition_dict:
  "case data_frame E (filter (\<lambda>(k, v). v \<noteq> JNull) d) of None \<Rightarrow> True | Some e \<Rightarrow> is_Exception e \<Longrightarrow>
   fst (show_nutrition E (JObj d) w) = None
   \<and> StSubheader ''Nutrition Information'' \<in> set (ui (snd (show_nutrition E (JObj d) w)))
   \<and> (StDataframe (map (\<lambda>(k, v). (k, str_json E v))
                      (filter (\<lambda>(k, v). k \<noteq> ''schema_version'')
                         (filter (\<lambda>(k, v). v \<noteq> JNull) d)))
         \<in> set (ui (snd (show_nutrition E (JObj d) w)))
       \<or> StJson (filter (\<lambda>(k, v). v \<noteq> JNull) d)
         \<in> set (ui (snd (show_nutrition E (JObj d) w))))"
  by (auto simp: show_nutrition_def st_simps Let_def split: option.splits)

lemma submit_found:
  assumes "submit_button f"
    and "barcode_input E f w = (Inr (Some b), w1)" and "b \<noteq> []"
    and "fst (get_nutrition_data E (PStr b) wa) = Inr (JObj d)" and "d \<noteq> []"
    and "case data_frame E (filter (\<lambda>(k, v). v \<noteq> JNull) d) of None \<Rightarrow> True | Some e \<Rightarrow> is_Exception e"
  shows "\<exists>w4. submit E pw f w = password_check E pw f b (JObj d) w4
            \<and> app_log w4 = app_log w \<and> prompts_sent w4 = prompts_sent w
            \<and> StSubheader ''Nutrition Information'' \<in> set (ui w4)
            \<and> (StDataframe (map (\<lambda>(k, v). (k, str_json E v))
                      (filter (\<lambda>(k, v). k \<noteq> ''schema_version'')
                         (filter (\<lambda>(k, v). v \<noteq> JNull) d))) \<in> set (ui w4)
               \<or> StJson (filter (\<lambda>(k, v). v \<noteq> JNull) d) \<in> set (ui w4))"
proof -
  define w2 where "w2 = (if breed (dog f) = [] \<or> age (dog f) = 0 \<or> weight_kg (dog f) = 0
                          then st (StWarning ''Please provide at least the dog's breed, age, and weight for better recommendations.'') w1
                          else w1)"
  obtain r3 w3 where f3: "fetch_nutrition E b w2 = (r3, w3)"
    by (cases "fetch_nutrition E b w2") blast
  have r3: "r3 = Inr (JObj d)"
    using fetch_nutrition_value [OF assms(4), of w2] f3 by simp
  obtain r4 w4 where s4: "show_nutrition E (JObj d) w3 = (r4, w4)"
    by (cases "show_nutrition E (JObj d) w3") blast
  have r4: "r4 = None"
    using show_nutrition_dict [OF assms(6), of w3] s4 by simp
  have sub: "submit E pw f w = password_check E pw f b (JObj d) w4"
    using assms(1,2,3,5) f3 r3 s4 r4
    by (simp add: submit_def w2_def [symmetric] Let_def)
  have l1: "app_log w1 = app_log w \<and> prompts_sent w1 = prompts_sent w"
    using barcode_input_frame [of E f w] assms(2) by simp
  have l2: "app_log w2 = app_log w \<and> prompts_sent w2 = prompts_sent w"
    using l1 by (simp add: w2_def st_simps)
  have l3: "app_log w3 = app_log w \<and> prompts_sent w3 = prompts_sent w"
    using fetch_nutrition_frame [of E b w2] f3 l2 by simp
  have l4: "app_log w4 = app_log w \<and> prompts_sent w4 = prompts_sent w"
    using show_nutrition_frame [of E "JObj d" w3] s4 l3 by simp
  have u4: "StSubheader ''Nutrition Information'' \<in> set (ui w4)
            \<and> (StDataframe (map (\<lambda>(k, v). (k, str_json E v))
                      (filter (\<lambda>(k, v). k \<noteq> ''schema_version'')
                         (filter (\<lambda>(k, v). v \<noteq> JNull) d))) \<in> set (ui w4)
               \<or> StJson (filter (\<lambda>(k, v). v \<noteq> JNull) d) \<in> set (ui w4))"
    using show_nutrition_dict [OF assms(6), of w3] s4 by simp
  show ?thesis using sub l4 u4 by blast
qed


text \<open>
  C8, as amended.  In a run whose lookup returns a non-empty record, and where
  building the table raises nothing outside the class \<open>Exception\<close>, the prompt is
  sent to the model if and only if the configured password is non-empty and the
  entered one equals it.  Otherwise the run ends without an exception and writes no
  log entry.  In both cases the nutrition heading and the facts (as a table, or as
  JSON when the table cannot be built) are shown.
\<close>

theorem password_gate:
  assumes "submit_button f"
    and "barcode_input E f w = (Inr (Some b), w1)" and "b \<noteq> []"
    and "fst (get_nutrition_data E (PStr b) wa) = Inr (JObj d)" and "d \<noteq> []"
    and "case data_frame E (filter (\<lambda>(k, v). v \<noteq> JNull) d) of None \<Rightarrow> True | Some e \<Rightarrow> is_Exception e"
  shows "(prompts_sent (snd (submit E pw f w)) \<noteq> prompts_sent w
            \<longleftrightarrow> pw \<noteq> [] \<and> app_password_input f = pw)
       \<and> (pw \<noteq> [] \<and> app_password_input f = pw \<longrightarrow>
            prompts_sent (snd (submit E pw f w))
              = prompts_sent w @ [create_prompt_string E (JObj d) (dog f)])
       \<and> (pw = [] \<or> app_password_input f \<noteq> pw \<longrightarrow>
            fst (submit E pw f w) = None \<and> app_log (snd (submit E pw f w)) = app_log w)
       \<and> StSubheader ''Nutrition Information'' \<in> set (ui (snd (submit E pw f w)))
       \<and> (StDataframe (map (\<lambda>(k, v). (k, str_json E v))
                      (filter (\<lambda>(k, v). k \<noteq> ''schema_version'')
                         (filter (\<lambda>(k, v). v \<noteq> JNull) d)))
             \<in> set (ui (snd (submit E pw f w)))
           \<or> StJson (filter (\<lambda>(k, v). v \<noteq> JNull) d) \<in> set (ui (snd (submit E pw f w))))"
proof -
  obtain w4 where sub: "submit E pw f w = password_check E pw f b (JObj d) w4"
    and l4: "app_log w4 = app_log w" "prompts_sent w4 = prompts_sent w"
    and u4: "StSubheader ''Nutrition Information'' \<in> set (ui w4)"
    and t4: "StDataframe (map (\<lambda>(k, v). (k, str_json E v))
                      (filter (\<lambda>(k, v). k \<noteq> ''schema_version'')
                         (filter (\<lambda>(k, v). v \<noteq> JNull) d))) \<in> set (ui w4)
             \<or> StJson (filter (\<lambda>(k, v). v \<noteq> JNull) d) \<in> set (ui w4)"
    using submit_found [OF assms, of pw] by blast
  have mono: "set (ui w4) \<subseteq> set (ui (snd (submit E pw f w)))"
    using password_check_closed [of pw f E b "JObj d" w4]
      password_check_open [of pw f E b "JObj d" w4] sub by (cases "pw = [] \<or> app_password_input f \<noteq> pw") auto
  show ?thesis
  proof (cases "pw \<noteq> [] \<and> app_password_input f = pw")
    case True
    have p: "prompts_sent (snd (submit E pw f w))
               = prompts_sent w @ [create_prompt_string E (JObj d) (dog f)]"
      using password_check_open [of pw f E b "JObj d" w4] True sub l4 by simp
    show ?thesis using True p u4 t4 mono by auto
  next
    case False
    have c: "fst (submit E pw f w) = None \<and> app_log (snd (submit E pw f w)) = app_log w
             \<and> prompts_sent (snd (submit E pw f w)) = prompts_sent w"
      using password_check_closed [of pw f E b "JObj d" w4] False sub l4 by auto
    show ?thesis using False c u4 t4 mono by auto
  qed
qed

theorem password_gate_witness:
  "prompts_sent (snd (submit (sample_env (\<lambda>q. Inr found_response)) ''secret'' sample_form empty_world))
     = [create_prompt_string (sample_env (\<lambda>q. Inr found_response))
          (JObj [(''product_name'', JStr ''Test Kibble'')]) sample_dog]
   \<and> fst (submit (sample_env (\<lambda>q. Inr found_response)) ''secret''
             (sample_form\<lparr>app_password_input := ''guess''\<rparr>) empty_world) = None
   \<and> prompts_sent (snd (submit (sample_env (\<lambda>q. Inr found_response)) ''secret''
             (sample_form\<lparr>app_password_input := ''guess''\<rparr>) empty_world)) = []
   \<and> StSubheader ''Nutrition Information''
       \<in> set (ui (snd (submit (sample_env (\<lambda>q. Inr found_response)) ''secret''
                          (sample_form\<lparr>app_password_input := ''guess''\<rparr>) empty_world)))"
proof -
  let ?E = "sample_env (\<lambda>q. Inr found_response)"
  let ?g = "sample_form\<lparr>app_password_input := ''guess''\<rparr>"
  let ?w1 = "st (StSuccess ''Using Manual Barcode: 0000000000123'') empty_world"
  let ?d = "[(''product_name'', JStr ''Test Kibble'')]"
  have a: "submit_button sample_form" "submit_button ?g"
    by (simp_all add: sample_form_def)
  have b: "barcode_input ?E sample_form empty_world = (Inr (Some ''0000000000123''), ?w1)"
    "barcode_input ?E ?g empty_world = (Inr (Some ''0000000000123''), ?w1)"
    by (simp_all add: barcode_input_def sample_form_def)
  have c: "''0000000000123'' \<noteq> []" by simp
  have d: "fst (get_nutrition_data ?E (PStr ''0000000000123'') empty_world) = Inr (JObj ?d)"
    by (simp add: get_nutrition_data_def strip_leading_zeros_def coerce_barcode_def
        strip_zeros_str_def sample_env_def found_response_def raise_for_status_def
        select_product_def dict_get_def Let_def)
  have e: "?d \<noteq> []" by simp
  have g: "case data_frame ?E (filter (\<lambda>(k, v). v \<noteq> JNull) ?d) of None \<Rightarrow> True
           | Some e \<Rightarrow> is_Exception e"
    by (simp add: sample_env_def)
  have p: "app_password_input sample_form = ''secret''" "app_password_input ?g = ''guess''"
    "dog sample_form = sample_dog"
    by (simp_all add: sample_form_def)
  have e0: "prompts_sent empty_world = []" by (simp add: empty_world_def)
  show ?thesis
    using password_gate [OF a(1) b(1) c d e g, of "''secret''"]
      password_gate [OF a(2) b(2) c d e g, of "''secret''"] p e0
    by simp
qed


lemma replace_from_single:
  "replace_from [c] new s = concat (map (\<lambda>x. if x = c then new else [x]) s)"
  by (induction s) auto

lemma flatten_newlines:
  "py_replace [CHR 0x0A] '' '' s = map (\<lambda>x. if x = CHR 0x0A then CHR '' '' else x) s"
proof -
  have "concat (map (\<lambda>x. if x = CHR 0x0A then '' '' else [x]) s)
          = map (\<lambda>x. if x = CHR 0x0A then CHR '' '' else x) s"
    by (induction s) auto
  then show ?thesis
    by (simp add: py_replace_def replace_from_single)
qed

lemma fetch_nutrition_truthy:
  "fetch_nutrition E b w = (Inr n, w3) \<Longrightarrow> truthy n \<Longrightarrow>
   fst (get_nutrition_data E (PStr b) w) = Inr n"
  by (cases "get_nutrition_data E (PStr b) w")
     (auto simp: fetch_nutrition_def split: sum.splits if_splits)

lemma submit_log_cases:
  "app_log (snd (submit E pw f w)) = app_log w
   \<or> (\<exists>b n w1 w4. barcode_input E f w = (Inr (Some b), w1) \<and> truthy n
         \<and> (\<forall>wa. fst (get_nutrition_data E (PStr b) wa) = Inr n)
         \<and> app_log w4 = app_log w
         \<and> app_log (snd (submit E pw f w)) = app_log (snd (password_check E pw f b n w4)))"
proof (cases "submit_button f")
  case False
  then show ?thesis by (simp add: submit_def st_simps)
next
  case True
  obtain rb w1 where bi: "barcode_input E f w = (rb, w1)"
    by (cases "barcode_input E f w") blast
  have l1: "app_log w1 = app_log w"
    using barcode_input_frame [of E f w] bi by simp
  show ?thesis
  proof (cases "\<exists>b. rb = Inr (Some b) \<and> b \<noteq> []")
    case False
    then show ?thesis
      using True bi l1
      by (auto simp: submit_def split: sum.splits option.splits)
  next
    case True
    then obtain b where rb: "rb = Inr (Some b)" and b: "b \<noteq> []" by blast
    define w2 where "w2 = (if breed (dog f) = [] \<or> age (dog f) = 0 \<or> weight_kg (dog f) = 0
                          then st (StWarning ''Please provide at least the dog's breed, age, and weight for better recommendations.'') w1
                          else w1)"
    have l2: "app_log w2 = app_log w"
      using l1 by (simp add: w2_def st_simps)
    obtain r3 w3 where f3: "fetch_nutrition E b w2 = (r3, w3)"
      by (cases "fetch_nutrition E b w2") blast
    have l3: "app_log w3 = app_log w"
      using fetch_nutrition_frame [of E b w2] f3 l2 by simp
    have sub: "submit E pw f w =
                 (case r3 of
                    Inl e \<Rightarrow> (Some e, w3)
                  | Inr nutrition_info \<Rightarrow>
                      if truthy nutrition_info
                      then (case show_nutrition E nutrition_info w3 of
                              (Some e, w4) \<Rightarrow> (Some e, w4)
                            | (None, w4) \<Rightarrow> password_check E pw f b nutrition_info w4)
                      else (None,
                            st (StError (''Could not find nutrition information for barcode: '' @ b)) w3))"
      using \<open>submit_button f\<close> bi rb b f3
      by (simp add: submit_def w2_def [symmetric] Let_def)
    show ?thesis
    proof (cases r3)
      case (Inl e)
      then show ?thesis using sub l3 by simp
    next
      case (Inr n)
      show ?thesis
      proof (cases "truthy n")
        case False
        then show ?thesis using sub Inr l3 by (simp add: st_simps)
      next
        case True
        have g: "fst (get_nutrition_data E (PStr b) w2) = Inr n"
          using fetch_nutrition_truthy f3 Inr True by blast
        obtain r4 w4 where s4: "show_nutrition E n w3 = (r4, w4)"
          by (cases "show_nutrition E n w3") blast
        have l4: "app_log w4 = app_log w"
          using show_nutrition_frame [of E n w3] s4 l3 by simp
        show ?thesis
        proof (cases r4)
          case None
          have eq: "submit E pw f w = password_check E pw f b n w4"
            using sub Inr True s4 None by simp
          have every: "\<forall>wa. fst (get_nutrition_data E (PStr b) wa) = Inr n"
            using g get_nutrition_data_value [of E "PStr b" _ w2] by simp
          have here: "barcode_input E f w = (Inr (Some b), w1)"
            using bi rb by simp
          have "barcode_input E f w = (Inr (Some b), w1) \<and> truthy n
                \<and> (\<forall>wa. fst (get_nutrition_data E (PStr b) wa) = Inr n)
                \<and> app_log w4 = app_log w
                \<and> app_log (snd (submit E pw f w)) = app_log (snd (password_check E pw f b n w4))"
            using here True every l4 eq by simp
          then show ?thesis by blast
        next
          case (Some e)
          have "submit E pw f w = (Some e, w4)"
            using sub Inr True s4 Some by simp
          then show ?thesis using l4 by simp
        qed
      qed
    qed
  qed
qed

lemma password_check_log:
  "app_log (snd (password_check E pw f b n w))
     = app_log w
       @ (if pw \<noteq> [] \<and> app_password_input f = pw
          then (case generate_content E (create_prompt_string E n (dog f)) of
                  Inl e \<Rightarrow> []
                | Inr r \<Rightarrow> if r \<noteq> [] then [log_message E b (dog f) n r] else [])
          else [])"
  using password_check_open [of pw f E b n w] password_check_closed [of pw f E b n w]
  by (cases "pw \<noteq> [] \<and> app_password_input f = pw") auto

text \<open>
  C8 as stated covers every lookup that succeeds.  For the body
  \<open>{"status": 1, "product": {}}\<close> the lookup returns the payload \<open>{}\<close>, which the
  test \<open>if nutrition_info:\<close> takes as no result: with the right password no prompt
  is sent and the message shown is that no nutrition information was found.
\<close>

theorem password_gate_counterexample:
  "fst (get_nutrition_data (sample_env (\<lambda>q. Inr empty_product_response))
          (PStr ''0000000000123'') empty_world) = Inr (JObj [])
   \<and> app_password_input sample_form = ''secret''
   \<and> fst (submit (sample_env (\<lambda>q. Inr empty_product_response)) ''secret'' sample_form
             empty_world) = None
   \<and> prompts_sent (snd (submit (sample_env (\<lambda>q. Inr empty_product_response)) ''secret''
                           sample_form empty_world)) = []
   \<and> ui (snd (submit (sample_env (\<lambda>q. Inr empty_product_response)) ''secret''
                 sample_form empty_world))
       = [StSuccess ''Using Manual Barcode: 0000000000123'',
          StError ''Could not find nutrition information for barcode: 0000000000123'']"
proof -
  let ?E = "sample_env (\<lambda>q. Inr empty_product_response)"
  have lk: "\<And>w. get_nutrition_data ?E (PStr ''0000000000123'') w
              = (Inr (JObj []),
                 w\<lparr>requests_sent := requests_sent w @ [(api_url ''123'', headers)]\<rparr>)"
    by (simp add: get_nutrition_data_def strip_leading_zeros_def coerce_barcode_def
        strip_zeros_str_def sample_env_def empty_product_response_def raise_for_status_def
        select_product_def dict_get_def Let_def)
  have fe: "\<And>w. fetch_nutrition ?E ''0000000000123'' w
              = (Inr (JObj []),
                 w\<lparr>requests_sent := requests_sent w @ [(api_url ''123'', headers)]\<rparr>)"
    by (simp add: fetch_nutrition_def lk)
  have bi: "barcode_input ?E sample_form empty_world
              = (Inr (Some ''0000000000123''),
                 st (StSuccess ''Using Manual Barcode: 0000000000123'') empty_world)"
    by (simp add: barcode_input_def sample_form_def)
  have sf: "submit_button sample_form" "app_password_input sample_form = ''secret''"
    "breed (dog sample_form) \<noteq> []" "age (dog sample_form) \<noteq> 0"
    "weight_kg (dog sample_form) \<noteq> 0"
    by (simp_all add: sample_form_def sample_dog_def)
  have su: "submit ?E ''secret'' sample_form empty_world
              = (None,
                 st (StError ''Could not find nutrition information for barcode: 0000000000123'')
                   ((st (StSuccess ''Using Manual Barcode: 0000000000123'') empty_world)
                      \<lparr>requests_sent :=
                         requests_sent (st (StSuccess ''Using Manual Barcode: 0000000000123'')
                                          empty_world)
                         @ [(api_url ''123'', headers)]\<rparr>))"
    using sf by (simp add: submit_def bi fe)
  have a: "fst (get_nutrition_data ?E (PStr ''0000000000123'') empty_world) = Inr (JObj [])"
    by (simp add: lk)
  have r: "fst (submit ?E ''secret'' sample_form empty_world) = None"
    "prompts_sent (snd (submit ?E ''secret'' sample_form empty_world)) = []"
    "ui (snd (submit ?E ''secret'' sample_form empty_world))
       = [StSuccess ''Using Manual Barcode: 0000000000123'',
          StError ''Could not find nutrition information for barcode: 0000000000123'']"
    unfolding su by (simp_all add: st_def empty_world_def)
  show ?thesis
    using a sf(2) r by (intro conjI)
qed

text \<open>
  The log of a run.  One entry is appended when the lookup returns a non-empty
  record, the password check passes and the model returns a non-empty text.  A run
  never appends more than one entry, and appends none when the password check fails,
  when the model raises or returns the empty text for the record of this run, when
  the lookup of the barcode of this run raises or returns a value that counts as
  false, or when the run has no barcode.  Where \<open>os.linesep\<close> is the newline
  character, the recommendation in the entry is the text with every newline replaced
  by a space.
\<close>

lemma interaction_log:
  "(submit_button f \<and> barcode_input E f w = (Inr (Some b), w1) \<and> b \<noteq> []
      \<and> fst (get_nutrition_data E (PStr b) wa) = Inr (JObj d) \<and> d \<noteq> []
      \<and> (case data_frame E (filter (\<lambda>(k, v). v \<noteq> JNull) d) of None \<Rightarrow> True
          | Some e \<Rightarrow> is_Exception e)
      \<and> pw \<noteq> [] \<and> app_password_input f = pw
      \<and> generate_content E (create_prompt_string E (JObj d) (dog f)) = Inr r \<and> r \<noteq> []
      \<longrightarrow> app_log (snd (submit E pw f w)) = app_log w @ [log_message E b (dog f) (JObj d) r])
   \<and> (app_log (snd (submit E pw f w)) = app_log w
       \<or> (\<exists>m. app_log (snd (submit E pw f w)) = app_log w @ [m]))
   \<and> (pw = [] \<or> app_password_input f \<noteq> pw \<longrightarrow>
        app_log (snd (submit E pw f w)) = app_log w)
   \<and> (barcode_input E f w = (Inr (Some b), w1)
        \<and> fst (get_nutrition_data E (PStr b) wa) = Inr n
        \<and> (case generate_content E (create_prompt_string E n (dog f)) of
              Inl e \<Rightarrow> True | Inr t \<Rightarrow> t = []) \<longrightarrow>
        app_log (snd (submit E pw f w)) = app_log w)
   \<and> (barcode_input E f w = (Inr (Some b), w1)
        \<and> (case fst (get_nutrition_data E (PStr b) wa) of
              Inl e \<Rightarrow> True | Inr j \<Rightarrow> \<not> truthy j) \<longrightarrow>
        app_log (snd (submit E pw f w)) = app_log w)
   \<and> ((\<forall>b' w1'. barcode_input E f w \<noteq> (Inr (Some b'), w1')) \<longrightarrow>
        app_log (snd (submit E pw f w)) = app_log w)
   \<and> (linesep E = [CHR 0x0A] \<longrightarrow>
        log_message E b dg n r
          = ''Interaction Log:'' @ [CHR 0x0A]
            @ [CHR 0x09] @ ''Barcode: '' @ b @ [CHR 0x0A]
            @ [CHR 0x09] @ ''Dog Info: '' @ str_dog E dg @ [CHR 0x0A]
            @ [CHR 0x09] @ ''Nutrition Data: '' @ str_json E n @ [CHR 0x0A]
            @ [CHR 0x09] @ ''Recommendation: ''
            @ map (\<lambda>x. if x = CHR 0x0A then CHR '' '' else x) r)"
proof -
  let ?L = "app_log (snd (submit E pw f w))"
  have once: "submit_button f \<and> barcode_input E f w = (Inr (Some b), w1) \<and> b \<noteq> []
      \<and> fst (get_nutrition_data E (PStr b) wa) = Inr (JObj d) \<and> d \<noteq> []
      \<and> (case data_frame E (filter (\<lambda>(k, v). v \<noteq> JNull) d) of None \<Rightarrow> True
          | Some e \<Rightarrow> is_Exception e)
      \<and> pw \<noteq> [] \<and> app_password_input f = pw
      \<and> generate_content E (create_prompt_string E (JObj d) (dog f)) = Inr r \<and> r \<noteq> []
      \<longrightarrow> ?L = app_log w @ [log_message E b (dog f) (JObj d) r]"
  proof
    assume h: "submit_button f \<and> barcode_input E f w = (Inr (Some b), w1) \<and> b \<noteq> []
      \<and> fst (get_nutrition_data E (PStr b) wa) = Inr (JObj d) \<and> d \<noteq> []
      \<and> (case data_frame E (filter (\<lambda>(k, v). v \<noteq> JNull) d) of None \<Rightarrow> True
          | Some e \<Rightarrow> is_Exception e)
      \<and> pw \<noteq> [] \<and> app_password_input f = pw
      \<and> generate_content E (create_prompt_string E (JObj d) (dog f)) = Inr r \<and> r \<noteq> []"
    obtain w4 where sub: "submit E pw f w = password_check E pw f b (JObj d) w4"
      and l4: "app_log w4 = app_log w"
      using submit_found [of f E w b w1 wa d pw] h by blast
    show "?L = app_log w @ [log_message E b (dog f) (JObj d) r]"
      using sub l4 h by (simp add: password_check_log)
  qed
  have cases: "?L = app_log w
     \<or> (\<exists>b n w1 w4. barcode_input E f w = (Inr (Some b), w1) \<and> truthy n
           \<and> (\<forall>wa. fst (get_nutrition_data E (PStr b) wa) = Inr n)
           \<and> app_log w4 = app_log w
           \<and> ?L = app_log (snd (password_check E pw f b n w4)))"
    by (rule submit_log_cases)
  have atmost: "?L = app_log w \<or> (\<exists>m. ?L = app_log w @ [m])"
  proof -
    have pc: "\<And>b n w4. app_log (snd (password_check E pw f b n w4)) = app_log w4
                \<or> (\<exists>m. app_log (snd (password_check E pw f b n w4)) = app_log w4 @ [m])"
      by (simp add: password_check_log split: sum.splits)
    from cases show ?thesis
    proof
      assume "?L = app_log w"
      then show ?thesis by simp
    next
      assume "\<exists>b n w1 w4. barcode_input E f w = (Inr (Some b), w1) \<and> truthy n
           \<and> (\<forall>wa. fst (get_nutrition_data E (PStr b) wa) = Inr n)
           \<and> app_log w4 = app_log w
           \<and> ?L = app_log (snd (password_check E pw f b n w4))"
      then obtain b n w4 where "app_log w4 = app_log w"
        and "?L = app_log (snd (password_check E pw f b n w4))" by blast
      then show ?thesis using pc [of b n w4] by simp
    qed
  qed
  have closed: "pw = [] \<or> app_password_input f \<noteq> pw \<longrightarrow> ?L = app_log w"
    using cases by (auto simp: password_check_log)
  have nogen: "barcode_input E f w = (Inr (Some b), w1)
        \<and> fst (get_nutrition_data E (PStr b) wa) = Inr n
        \<and> (case generate_content E (create_prompt_string E n (dog f)) of
              Inl e \<Rightarrow> True | Inr t \<Rightarrow> t = []) \<longrightarrow> ?L = app_log w"
  proof
    assume h: "barcode_input E f w = (Inr (Some b), w1)
        \<and> fst (get_nutrition_data E (PStr b) wa) = Inr n
        \<and> (case generate_content E (create_prompt_string E n (dog f)) of
              Inl e \<Rightarrow> True | Inr t \<Rightarrow> t = [])"
    from cases show "?L = app_log w"
    proof
      assume "?L = app_log w"
      then show ?thesis .
    next
      assume "\<exists>b n w1 w4. barcode_input E f w = (Inr (Some b), w1) \<and> truthy n
           \<and> (\<forall>wa. fst (get_nutrition_data E (PStr b) wa) = Inr n)
           \<and> app_log w4 = app_log w
           \<and> ?L = app_log (snd (password_check E pw f b n w4))"
      then obtain b' n' w1' w4 where bi: "barcode_input E f w = (Inr (Some b'), w1')"
        and ev: "\<forall>wa. fst (get_nutrition_data E (PStr b') wa) = Inr n'"
        and l4: "app_log w4 = app_log w"
        and eq: "?L = app_log (snd (password_check E pw f b' n' w4))" by blast
      have b': "b' = b" using bi h by simp
      have n': "n' = n" using ev h b' by simp
      have "app_log (snd (password_check E pw f b n w4)) = app_log w4"
        using h by (simp add: password_check_log split: sum.splits)
      then show ?thesis using eq b' n' l4 by simp
    qed
  qed
  have nolookup: "barcode_input E f w = (Inr (Some b), w1)
        \<and> (case fst (get_nutrition_data E (PStr b) wa) of
              Inl e \<Rightarrow> True | Inr j \<Rightarrow> \<not> truthy j) \<longrightarrow> ?L = app_log w"
  proof
    assume h: "barcode_input E f w = (Inr (Some b), w1)
        \<and> (case fst (get_nutrition_data E (PStr b) wa) of
              Inl e \<Rightarrow> True | Inr j \<Rightarrow> \<not> truthy j)"
    from cases show "?L = app_log w"
    proof
      assume "?L = app_log w"
      then show ?thesis .
    next
      assume "\<exists>b n w1 w4. barcode_input E f w = (Inr (Some b), w1) \<and> truthy n
           \<and> (\<forall>wa. fst (get_nutrition_data E (PStr b) wa) = Inr n)
           \<and> app_log w4 = app_log w
           \<and> ?L = app_log (snd (password_check E pw f b n w4))"
      then obtain b' n' w1' where bi: "barcode_input E f w = (Inr (Some b'), w1')"
        and tr: "truthy n'"
        and ev: "\<forall>wa. fst (get_nutrition_data E (PStr b') wa) = Inr n'" by blast
      have b': "b' = b" using bi h by simp
      have "fst (get_nutrition_data E (PStr b) wa) = Inr n'" using ev b' by simp
      then have False using h tr by simp
      then show ?thesis ..
    qed
  qed
  have nobarcode: "(\<forall>b' w1'. barcode_input E f w \<noteq> (Inr (Some b'), w1')) \<longrightarrow> ?L = app_log w"
    using cases by blast
  have flat: "linesep E = [CHR 0x0A] \<longrightarrow>
        log_message E b dg n r
          = ''Interaction Log:'' @ [CHR 0x0A]
            @ [CHR 0x09] @ ''Barcode: '' @ b @ [CHR 0x0A]
            @ [CHR 0x09] @ ''Dog Info: '' @ str_dog E dg @ [CHR 0x0A]
            @ [CHR 0x09] @ ''Nutrition Data: '' @ str_json E n @ [CHR 0x0A]
            @ [CHR 0x09] @ ''Recommendation: ''
            @ map (\<lambda>x. if x = CHR 0x0A then CHR '' '' else x) r"
    by (simp add: log_message_def flatten_newlines)
  show ?thesis
    using once atmost closed nogen nolookup nobarcode flat by (intro conjI)
qed

lemma sample_lookup:
  "fst (get_nutrition_data (sample_env (\<lambda>q. Inr found_response)\<lparr>generate_content := g, linesep := l\<rparr>)
          (PStr ''0000000000123'') empty_world)
     = Inr (JObj [(''product_name'', JStr ''Test Kibble'')])"
  by (simp add: get_nutrition_data_def strip_leading_zeros_def coerce_barcode_def
      strip_zeros_str_def sample_env_def found_response_def raise_for_status_def
      select_product_def dict_get_def Let_def)

lemma sample_barcode_input:
  "barcode_input E sample_form w
     = (Inr (Some ''0000000000123''), st (StSuccess ''Using Manual Barcode: 0000000000123'') w)"
  by (simp add: barcode_input_def sample_form_def)

lemma interaction_log_example:
  "app_log (snd (submit (sample_env (\<lambda>q. Inr found_response)) ''secret'' sample_form empty_world))
     = [log_message (sample_env (\<lambda>q. Inr found_response)) ''0000000000123'' sample_dog
          (JObj [(''product_name'', JStr ''Test Kibble'')]) ''Feed 200 g per day.'']
   \<and> app_log (snd (submit (sample_env (\<lambda>q. Inr absent_response)) ''secret'' sample_form
                      empty_world)) = []
   \<and> app_log (snd (submit ((sample_env (\<lambda>q. Inr found_response))
                              \<lparr>generate_content := (\<lambda>p. Inl (OtherException ''quota'')),
                               linesep := [CHR 0x0A]\<rparr>)
                      ''secret'' sample_form empty_world)) = []"
proof -
  let ?E = "sample_env (\<lambda>q. Inr found_response)"
  let ?A = "sample_env (\<lambda>q. Inr absent_response)"
  let ?G = "(sample_env (\<lambda>q. Inr found_response))
              \<lparr>generate_content := (\<lambda>p. Inl (OtherException ''quota'')),
               linesep := [CHR 0x0A]\<rparr>"
  let ?b = "''0000000000123''"
  let ?w1 = "st (StSuccess ''Using Manual Barcode: 0000000000123'') empty_world"
  let ?d = "[(''product_name'', JStr ''Test Kibble'')]"
  let ?r = "''Feed 200 g per day.''"
  have e0: "app_log empty_world = []" by (simp add: empty_world_def)
  have sf: "submit_button sample_form" "app_password_input sample_form = ''secret''"
    "dog sample_form = sample_dog"
    by (simp_all add: sample_form_def)
  have lk: "fst (get_nutrition_data ?E (PStr ?b) empty_world) = Inr (JObj ?d)"
    by (simp add: get_nutrition_data_def strip_leading_zeros_def coerce_barcode_def
        strip_zeros_str_def sample_env_def found_response_def raise_for_status_def
        select_product_def dict_get_def Let_def)
  have h1: "submit_button sample_form
      \<and> barcode_input ?E sample_form empty_world = (Inr (Some ?b), ?w1)
      \<and> ?b \<noteq> []
      \<and> fst (get_nutrition_data ?E (PStr ?b) empty_world) = Inr (JObj ?d)
      \<and> ?d \<noteq> []
      \<and> (case data_frame ?E (filter (\<lambda>(k, v). v \<noteq> JNull) ?d) of None \<Rightarrow> True
          | Some e \<Rightarrow> is_Exception e)
      \<and> ''secret'' \<noteq> [] \<and> app_password_input sample_form = ''secret''
      \<and> generate_content ?E (create_prompt_string ?E (JObj ?d) (dog sample_form)) = Inr ?r
      \<and> ?r \<noteq> []"
    using sf(1,2) lk by (simp add: sample_barcode_input sample_env_def)
  note T1 = interaction_log [where f = sample_form and E = ?E and w = empty_world
      and b = ?b and ?w1.0 = ?w1 and wa = empty_world and d = ?d
      and pw = "''secret''" and r = ?r and dg = sample_dog and n = JNull]
  have a: "app_log (snd (submit ?E ''secret'' sample_form empty_world))
             = [log_message ?E ?b sample_dog (JObj ?d) ?r]"
    using T1 [THEN conjunct1, THEN mp, OF h1] by (simp only: e0 sf(3) append_Nil)
  have h5: "barcode_input ?A sample_form empty_world = (Inr (Some ?b), ?w1)
        \<and> (case fst (get_nutrition_data ?A (PStr ?b) empty_world) of
              Inl e \<Rightarrow> True | Inr j \<Rightarrow> \<not> truthy j)"
    by (simp add: sample_barcode_input get_nutrition_data_def strip_leading_zeros_def
        coerce_barcode_def strip_zeros_str_def sample_env_def absent_response_def
        raise_for_status_def select_product_def dict_get_def Let_def)
  note T5 = interaction_log [where f = sample_form and E = ?A and w = empty_world
      and b = ?b and ?w1.0 = ?w1 and wa = empty_world and d = ?d
      and pw = "''secret''" and r = ?r and dg = sample_dog and n = JNull]
  have b: "app_log (snd (submit ?A ''secret'' sample_form empty_world)) = []"
    using T5 [THEN conjunct2, THEN conjunct2, THEN conjunct2, THEN conjunct2, THEN conjunct1,
        THEN mp, OF h5]
    by (simp only: e0)
  have h4: "barcode_input ?G sample_form empty_world = (Inr (Some ?b), ?w1)
        \<and> fst (get_nutrition_data ?G (PStr ?b) empty_world) = Inr (JObj ?d)
        \<and> (case generate_content ?G (create_prompt_string ?G (JObj ?d) (dog sample_form)) of
              Inl e \<Rightarrow> True | Inr t \<Rightarrow> t = [])"
    by (simp add: sample_barcode_input sample_lookup)
  note T4 = interaction_log [where f = sample_form and E = ?G and w = empty_world
      and b = ?b and ?w1.0 = ?w1 and wa = empty_world and d = ?d
      and pw = "''secret''" and r = ?r and dg = sample_dog and n = "JObj ?d"]
  have c: "app_log (snd (submit ?G ''secret'' sample_form empty_world)) = []"
    using T4 [THEN conjunct2, THEN conjunct2, THEN conjunct2, THEN conjunct1, THEN mp, OF h4]
    by (simp only: e0)
  show ?thesis using a b c by (intro conjI)
qed

text \<open>
  C9.  The claim has every newline of the recommendation flattened to a space in
  the log entry.  The code replaces \<open>os.linesep\<close>: where that is carriage return
  plus newline, a run with the right password whose recommendation is \<open>a\<close>,
  newline, \<open>b\<close> appends the one entry that the claim asks for, and the newline is
  still in it.
\<close>

theorem log_interaction_keeps_newline:
  "app_log (snd (submit ((sample_env (\<lambda>q. Inr found_response))
                           \<lparr>generate_content := (\<lambda>p. Inr [CHR ''a'', CHR 0x0A, CHR ''b'']),
                            linesep := [CHR 0x0D, CHR 0x0A]\<rparr>)
                   ''secret'' sample_form empty_world))
     = [''Interaction Log:'' @ [CHR 0x0A]
        @ [CHR 0x09] @ ''Barcode: 0000000000123'' @ [CHR 0x0A]
        @ [CHR 0x09] @ ''Dog Info: Labrador'' @ [CHR 0x0A]
        @ [CHR 0x09] @ ''Nutrition Data: {}'' @ [CHR 0x0A]
        @ [CHR 0x09] @ ''Recommendation: '' @ [CHR ''a'', CHR 0x0A, CHR ''b'']]"
proof -
  let ?E = "(sample_env (\<lambda>q. Inr found_response))
              \<lparr>generate_content := (\<lambda>p. Inr [CHR ''a'', CHR 0x0A, CHR ''b'']),
               linesep := [CHR 0x0D, CHR 0x0A]\<rparr>"
  let ?d = "[(''product_name'', JStr ''Test Kibble'')]"
  have a: "submit_button sample_form" by (simp add: sample_form_def)
  have c: "''0000000000123'' \<noteq> []" by simp
  have e: "?d \<noteq> []" by simp
  have g: "case data_frame ?E (filter (\<lambda>(k, v). v \<noteq> JNull) ?d) of None \<Rightarrow> True
           | Some e \<Rightarrow> is_Exception e"
    by (simp add: sample_env_def)
  obtain w4 where sub: "submit ?E ''secret'' sample_form empty_world
                          = password_check ?E ''secret'' sample_form ''0000000000123'' (JObj ?d) w4"
    and l4: "app_log w4 = app_log empty_world"
    using submit_found [where pw = "''secret''", OF a sample_barcode_input c sample_lookup e g]
    by blast
  have r: "py_replace [CHR 0x0D, CHR 0x0A] '' '' [CHR ''a'', CHR 0x0A, CHR ''b'']
             = [CHR ''a'', CHR 0x0A, CHR ''b'']"
    by (simp add: py_replace_def)
  have m: "log_message ?E ''0000000000123'' sample_dog (JObj ?d) [CHR ''a'', CHR 0x0A, CHR ''b'']
             = ''Interaction Log:'' @ [CHR 0x0A]
        @ [CHR 0x09] @ ''Barcode: 0000000000123'' @ [CHR 0x0A]
        @ [CHR 0x09] @ ''Dog Info: Labrador'' @ [CHR 0x0A]
        @ [CHR 0x09] @ ''Nutrition Data: {}'' @ [CHR 0x0A]
        @ [CHR 0x09] @ ''Recommendation: '' @ [CHR ''a'', CHR 0x0A, CHR ''b'']"
    by (simp add: log_message_def r sample_env_def sample_dog_def)
  have p: "app_password_input sample_form = ''secret''" "dog sample_form = sample_dog"
    by (simp_all add: sample_form_def)
  have gen: "generate_content ?E (create_prompt_string ?E (JObj ?d) sample_dog)
               = Inr [CHR ''a'', CHR 0x0A, CHR ''b'']"
    by simp
  have "app_log (snd (submit ?E ''secret'' sample_form empty_world))
          = app_log empty_world
            @ [log_message ?E ''0000000000123'' sample_dog (JObj ?d) [CHR ''a'', CHR 0x0A, CHR ''b'']]"
    unfolding sub password_check_log l4 p gen by simp
  then show ?thesis
    unfolding m by (simp add: empty_world_def)
qed

end
